theory Spec2Isabelle
  imports Complex_Main "HOL-Library.Char_ord" "HOL-Library.List_Lexorder"
begin

section \<open>Values, errors and the runtime environment\<close>

text \<open>
  The program is the single code cell of \<^verbatim>\<open>main.ipynb\<close>: a straight-line script
  that loads two tables, splits one by a random mask, configures three two-step
  preprocessing pipelines inside a column transformer, fits a linear regression,
  scores it, stores the fitted pipeline and predicts with the reloaded one.  Every
  operation it performs is a call into pandas, NumPy, scikit-learn or joblib with the
  arguments written in the cell; the definitions below give each called operation the
  behaviour it has for exactly those arguments (defaults included), and the section
  \<open>The notebook\<close> composes them line by line.

  A table cell read by \<^verbatim>\<open>pd.read_csv\<close> is a string, a number, or missing (NaN).
  Missing is \<open>None\<close>; floating-point numbers are idealised as reals.
\<close>

datatype cell = is_Str: Str string | is_Num: Num real

text \<open>
  Python orders strings lexicographically by code point and numbers numerically;
  comparing a string with a number raises \<^verbatim>\<open>TypeError\<close>.  The order below agrees with
  Python on lists whose elements are all strings or all numbers; every definition that
  sorts or takes a minimum checks for that first and raises \<open>TypeError\<close> otherwise, so
  the clauses for mixed arguments are never observed.
\<close>

instantiation cell :: linorder
begin

fun less_eq_cell :: "cell \<Rightarrow> cell \<Rightarrow> bool" where
  "less_eq_cell (Num a) (Num b) = (a \<le> b)"
| "less_eq_cell (Str s) (Str t) = (s \<le> t)"
| "less_eq_cell (Num a) (Str t) = True"
| "less_eq_cell (Str s) (Num b) = False"

definition less_cell :: "cell \<Rightarrow> cell \<Rightarrow> bool" where
  "less_cell x y = (x \<le> y \<and> \<not> y \<le> x)"

instance
proof
  fix x y z :: cell
  show "(x < y) = (x \<le> y \<and> \<not> y \<le> x)" by (simp add: less_cell_def)
  show "x \<le> x" by (cases x) simp_all
  show "x \<le> y \<Longrightarrow> y \<le> z \<Longrightarrow> x \<le> z"
    by (cases x; cases y; cases z) auto
  show "x \<le> y \<Longrightarrow> y \<le> x \<Longrightarrow> x = y"
    by (cases x; cases y) auto
  show "x \<le> y \<or> y \<le> x"
    by (cases x; cases y) auto
qed

end

datatype error = KeyError | ValueError | TypeError

text \<open>
  What the cell takes from its runtime and cannot be read off the notebook:
  the stream of draws of NumPy's global generator (\<open>random_sample E i\<close> is the
  \<open>i\<close>-th number \<^verbatim>\<open>np.random.rand\<close> returns), Python's conversion of a string to a
  finite float or NaN (applied by scikit-learn where it needs a float array), and the
  least-squares solver behind \<^verbatim>\<open>LinearRegression.fit\<close>, which returns the coefficient
  vector and the intercept or raises.
\<close>

record env =
  random_sample :: "nat \<Rightarrow> real"
  py_float :: "string \<Rightarrow> error + real option"
  lstsq :: "real list list \<Rightarrow> real list \<Rightarrow> error + (real list \<times> real)"

definition and_then :: "'e + 'a \<Rightarrow> ('a \<Rightarrow> 'e + 'b) \<Rightarrow> 'e + 'b" where
  "and_then m f = (case m of Inl e \<Rightarrow> Inl e | Inr x \<Rightarrow> f x)"

text \<open>A loop over fallible steps stops at the first one that raises.\<close>

fun collect :: "('e + 'a) list \<Rightarrow> 'e + 'a list" where
  "collect [] = Inr []"
| "collect (x # xs) =
     (case x of
        Inl e \<Rightarrow> Inl e
      | Inr v \<Rightarrow> (case collect xs of Inl e \<Rightarrow> Inl e | Inr vs \<Rightarrow> Inr (v # vs)))"


section \<open>pandas: data frames\<close>

text \<open>
  A data frame has its column labels in order and its rows in order, each row with its
  index label and one cell per column.  \<^verbatim>\<open>pd.read_csv\<close> delivers unique column labels
  and the index labels \<open>0, 1, 2, ...\<close>; label lookup below returns the first
  column with the label, which is the only one.
\<close>

record dataframe =
  columns :: "string list"
  rows :: "(nat \<times> cell option list) list"

definition len :: "dataframe \<Rightarrow> nat" where
  "len df = length (rows df)"

text \<open>\<^verbatim>\<open>df[mask]\<close> with a boolean array: the rows whose mask entry is true.\<close>

definition getitem_mask :: "dataframe \<Rightarrow> bool list \<Rightarrow> error + dataframe" where
  "getitem_mask df msk =
     (if length msk \<noteq> len df then Inl ValueError
      else Inr (df\<lparr>rows := map fst (filter snd (zip (rows df) msk))\<rparr>))"

fun get_loc :: "string list \<Rightarrow> string \<Rightarrow> nat" where
  "get_loc [] n = 0"
| "get_loc (c # cs) n = (if c = n then 0 else Suc (get_loc cs n))"

definition take_columns :: "dataframe \<Rightarrow> string list \<Rightarrow> cell option list \<Rightarrow> cell option list" where
  "take_columns df names r = map (\<lambda>n. r ! get_loc (columns df) n) names"

text \<open>\<^verbatim>\<open>df[names]\<close> with a list of labels: \<^verbatim>\<open>KeyError\<close> when a label is not a column.\<close>

definition getitem_columns :: "dataframe \<Rightarrow> string list \<Rightarrow> error + dataframe" where
  "getitem_columns df names =
     (if \<not> list_all (\<lambda>n. n \<in> set (columns df)) names then Inl KeyError
      else Inr \<lparr>columns = names,
                rows = map (\<lambda>r. (fst r, take_columns df names (snd r))) (rows df)\<rparr>)"

text \<open>\<^verbatim>\<open>df[name]\<close> with one label: the values of that column.\<close>

definition getitem_column :: "dataframe \<Rightarrow> string \<Rightarrow> error + cell option list" where
  "getitem_column df name =
     (if name \<notin> set (columns df) then Inl KeyError
      else Inr (map (\<lambda>r. snd r ! get_loc (columns df) name) (rows df)))"

definition df_values :: "dataframe \<Rightarrow> cell option list list" where
  "df_values df = map snd (rows df)"


section \<open>NumPy\<close>

definition np_random_rand :: "env \<Rightarrow> nat \<Rightarrow> real list" where
  "np_random_rand E n = map (random_sample E) [0..<n]"

definition np_mean :: "real list \<Rightarrow> real" where
  "np_mean xs = sum_list xs / real (length xs)"

definition sum_sq_dev :: "real list \<Rightarrow> real" where
  "sum_sq_dev xs = sum_list (map (\<lambda>x. (x - np_mean xs)\<^sup>2) xs)"

text \<open>\<^verbatim>\<open>np.var\<close> with its default \<^verbatim>\<open>ddof=0\<close>: the population variance.\<close>

definition np_var :: "real list \<Rightarrow> real" where
  "np_var xs = sum_sq_dev xs / real (length xs)"


section \<open>scikit-learn: arrays and input validation\<close>

text \<open>A two-dimensional array is the list of its rows, all of one length.\<close>

definition n_features :: "'a list list \<Rightarrow> nat" where
  "n_features X = (case X of [] \<Rightarrow> 0 | r # _ \<Rightarrow> length r)"

definition rect :: "'a list list \<Rightarrow> bool" where
  "rect X = list_all (\<lambda>r. length r = n_features X) X"

definition column :: "'a list list \<Rightarrow> nat \<Rightarrow> 'a list" where
  "column X j = map (\<lambda>r. r ! j) X"

definition columns_of :: "'a list list \<Rightarrow> 'a list list" where
  "columns_of X = map (column X) [0..<n_features X]"

text \<open>
  \<^verbatim>\<open>check_array\<close> with its defaults \<^verbatim>\<open>ensure_min_samples=1\<close> and
  \<^verbatim>\<open>ensure_min_features=1\<close>.
\<close>

definition check_array :: "'a list list \<Rightarrow> error + 'a list list" where
  "check_array X =
     (if length X < 1 then Inl ValueError
      else if n_features X < 1 then Inl ValueError
      else Inr X)"

definition as_float :: "env \<Rightarrow> cell option \<Rightarrow> error + real option" where
  "as_float E x =
     (case x of
        None \<Rightarrow> Inr None
      | Some (Num r) \<Rightarrow> Inr (Some r)
      | Some (Str s) \<Rightarrow> py_float E s)"

text \<open>\<^verbatim>\<open>check_array\<close> with a float dtype: every cell is converted first.\<close>

definition check_array_float :: "env \<Rightarrow> cell option list list \<Rightarrow> error + real option list list" where
  "check_array_float E X =
     and_then (collect (map (\<lambda>r. collect (map (as_float E) r)) X)) check_array"

definition observed :: "'a option list \<Rightarrow> 'a list" where
  "observed c = concat (map (\<lambda>x. case x of None \<Rightarrow> [] | Some v \<Rightarrow> [v]) c)"


section \<open>scikit-learn: SimpleImputer\<close>

fun maximum :: "nat list \<Rightarrow> nat" where
  "maximum [] = 0"
| "maximum (n # ns) = max n (maximum ns)"

definition uniform_type :: "cell list \<Rightarrow> bool" where
  "uniform_type vs = (list_all is_Num vs \<or> list_all is_Str vs)"

text \<open>
  \<^verbatim>\<open>strategy='most_frequent'\<close>: the statistic of a column is the most frequent observed
  value, the smallest one among equally frequent values (Python's \<^verbatim>\<open>min\<close>, which raises
  \<^verbatim>\<open>TypeError\<close> on a string and a number), and NaN for a column with no observed value.
\<close>

definition most_frequent :: "cell list \<Rightarrow> error + cell option" where
  "most_frequent vs =
     (if vs = [] then Inr None
      else
        let most_frequent_count = maximum (map (count_list vs) vs);
            ties = filter (\<lambda>v. count_list vs v = most_frequent_count) (remdups vs)
        in if uniform_type ties then Inr (Some (min_list ties)) else Inl TypeError)"

definition imputer_fit_most_frequent :: "cell option list list \<Rightarrow> error + cell option list" where
  "imputer_fit_most_frequent X =
     and_then (check_array X)
       (\<lambda>X. collect (map (\<lambda>c. most_frequent (observed c)) (columns_of X)))"

text \<open>\<^verbatim>\<open>strategy='mean'\<close>: the mean of the observed values, NaN when there is none.\<close>

definition mean_statistic :: "real list \<Rightarrow> real option" where
  "mean_statistic vs = (if vs = [] then None else Some (np_mean vs))"

definition imputer_fit_mean :: "env \<Rightarrow> cell option list list \<Rightarrow> error + real option list" where
  "imputer_fit_mean E X =
     and_then (check_array_float E X)
       (\<lambda>X. Inr (map (\<lambda>c. mean_statistic (observed c)) (columns_of X)))"

text \<open>
  \<^verbatim>\<open>transform\<close> (with the default \<^verbatim>\<open>keep_empty_features=False\<close>): a column whose
  statistic is NaN is dropped; in every other column a missing cell becomes the
  statistic.
\<close>

definition impute_row :: "'a option list \<Rightarrow> 'a option list \<Rightarrow> 'a list" where
  "impute_row statistics r =
     concat (map (\<lambda>(s, x). case s of None \<Rightarrow> [] | Some m \<Rightarrow> [case x of None \<Rightarrow> m | Some v \<Rightarrow> v])
               (zip statistics r))"

definition imputer_transform :: "'a option list \<Rightarrow> 'a option list list \<Rightarrow> error + 'a list list" where
  "imputer_transform statistics X =
     and_then (check_array X)
       (\<lambda>X. if n_features X \<noteq> length statistics then Inl ValueError
            else Inr (map (impute_row statistics) X))"


section \<open>scikit-learn: encoders and the scaler\<close>

text \<open>
  Both encoders are built with the default \<^verbatim>\<open>categories='auto'\<close>: the categories of a
  column are its distinct fit-time values in ascending order (\<^verbatim>\<open>np.unique\<close>, or
  \<^verbatim>\<open>sorted(set(values))\<close> for object arrays, which raises \<^verbatim>\<open>TypeError\<close> on a column
  that mixes strings and numbers).
\<close>

definition unique :: "cell list \<Rightarrow> error + cell list" where
  "unique vs = (if uniform_type vs then Inr (sort (remdups vs)) else Inl TypeError)"

definition encoder_fit :: "cell list list \<Rightarrow> error + cell list list" where
  "encoder_fit Z = and_then (check_array Z) (\<lambda>Z. collect (map unique (columns_of Z)))"

fun index_of :: "'a list \<Rightarrow> 'a \<Rightarrow> nat" where
  "index_of [] v = 0"
| "index_of (c # cs) v = (if c = v then 0 else Suc (index_of cs v))"

text \<open>
  \<^verbatim>\<open>OrdinalEncoder()\<close> keeps \<^verbatim>\<open>handle_unknown='error'\<close>: a value outside the
  categories of its column raises \<^verbatim>\<open>ValueError\<close>; otherwise the code is the position
  of the value among the categories.
\<close>

definition ordinal_encoder_transform :: "cell list list \<Rightarrow> cell list list \<Rightarrow> error + real list list" where
  "ordinal_encoder_transform categories Z =
     and_then (check_array Z)
       (\<lambda>Z. if n_features Z \<noteq> length categories then Inl ValueError
            else if \<not> list_all (\<lambda>r. list_all (\<lambda>(v, c). v \<in> set c) (zip r categories)) Z
            then Inl ValueError
            else Inr (map (\<lambda>r. map (\<lambda>(v, c). real (index_of c v)) (zip r categories)) Z))"

text \<open>
  \<^verbatim>\<open>OneHotEncoder(sparse_output=True, handle_unknown="ignore")\<close>: one indicator per
  category of each column; an unknown value sets none of them.  The sparse result is
  read as the dense matrix with the same entries.
\<close>

definition one_hot :: "cell list \<Rightarrow> cell \<Rightarrow> real list" where
  "one_hot c v = map (\<lambda>k. if k = v then 1 else 0) c"

definition one_hot_encoder_transform :: "cell list list \<Rightarrow> cell list list \<Rightarrow> error + real list list" where
  "one_hot_encoder_transform categories Z =
     and_then (check_array Z)
       (\<lambda>Z. if n_features Z \<noteq> length categories then Inl ValueError
            else Inr (map (\<lambda>r. concat (map (\<lambda>(v, c). one_hot c v) (zip r categories))) Z))"

text \<open>
  \<^verbatim>\<open>StandardScaler()\<close>: per column the mean and the population variance of the fit
  data.  The scale is the square root of the variance, replaced by 1 for every column
  that \<^verbatim>\<open>_is_constant_feature\<close> reports as indistinguishable from a constant one:
  \<^verbatim>\<open>var <= n_samples * eps * var + (n_samples * mean * eps) ** 2\<close> with
  \<^verbatim>\<open>eps = np.finfo(np.float64).eps\<close>, which is \<open>1 / 2 ^ 52\<close>.  A column of variance 0 always
  passes that test.
\<close>

record fitted_scaler =
  scaler_mean :: "real list"
  scaler_var :: "real list"
  scaler_scale :: "real list"

definition float64_eps :: real where
  "float64_eps = 1 / 2 ^ 52"

definition is_constant_feature :: "real \<Rightarrow> real \<Rightarrow> nat \<Rightarrow> bool" where
  "is_constant_feature v m n_samples =
     (v \<le> real n_samples * float64_eps * v + (real n_samples * m * float64_eps)\<^sup>2)"

definition handle_zeros_in_scale :: "real \<Rightarrow> bool \<Rightarrow> real" where
  "handle_zeros_in_scale scale constant_mask = (if constant_mask then 1 else scale)"

definition standard_scaler_fit :: "real list list \<Rightarrow> error + fitted_scaler" where
  "standard_scaler_fit Z =
     and_then (check_array Z)
       (\<lambda>Z. Inr \<lparr>scaler_mean = map np_mean (columns_of Z),
                 scaler_var = map np_var (columns_of Z),
                 scaler_scale =
                   map (\<lambda>c. handle_zeros_in_scale (sqrt (np_var c))
                               (is_constant_feature (np_var c) (np_mean c) (length c)))
                     (columns_of Z)\<rparr>)"

definition scale_row :: "fitted_scaler \<Rightarrow> real list \<Rightarrow> real list" where
  "scale_row s r = map (\<lambda>(x, m, d). (x - m) / d) (zip r (zip (scaler_mean s) (scaler_scale s)))"

definition standard_scaler_transform :: "fitted_scaler \<Rightarrow> real list list \<Rightarrow> error + real list list" where
  "standard_scaler_transform s Z =
     and_then (check_array Z)
       (\<lambda>Z. if n_features Z \<noteq> length (scaler_mean s) then Inl ValueError
            else Inr (map (scale_row s) Z))"


section \<open>scikit-learn: the three two-step pipelines\<close>

text \<open>
  \<^verbatim>\<open>ordinal_pipeline\<close>, \<^verbatim>\<open>nominal_pipeline\<close> and \<^verbatim>\<open>numerical_pipeline\<close>: an imputer
  followed by an encoder or the scaler.  Fitting fits the imputer, transforms the fit
  data with it and fits the second step on the result; transforming applies both steps
  with the fitted values only.
\<close>

record fitted_categorical =
  statistics :: "cell option list"
  categories :: "cell list list"

record fitted_numerical =
  num_statistics :: "real option list"
  scaler :: fitted_scaler

definition ordinal_pipeline_fit :: "cell option list list \<Rightarrow> error + fitted_categorical" where
  "ordinal_pipeline_fit X =
     and_then (imputer_fit_most_frequent X) (\<lambda>st.
     and_then (imputer_transform st X) (\<lambda>Z.
     and_then (encoder_fit Z) (\<lambda>cats.
     Inr \<lparr>statistics = st, categories = cats\<rparr>)))"

definition ordinal_pipeline_transform :: "fitted_categorical \<Rightarrow> cell option list list \<Rightarrow> error + real list list" where
  "ordinal_pipeline_transform f X =
     and_then (imputer_transform (statistics f) X) (ordinal_encoder_transform (categories f))"

definition nominal_pipeline_fit :: "cell option list list \<Rightarrow> error + fitted_categorical" where
  "nominal_pipeline_fit X =
     and_then (imputer_fit_most_frequent X) (\<lambda>st.
     and_then (imputer_transform st X) (\<lambda>Z.
     and_then (encoder_fit Z) (\<lambda>cats.
     Inr \<lparr>statistics = st, categories = cats\<rparr>)))"

definition nominal_pipeline_transform :: "fitted_categorical \<Rightarrow> cell option list list \<Rightarrow> error + real list list" where
  "nominal_pipeline_transform f X =
     and_then (imputer_transform (statistics f) X) (one_hot_encoder_transform (categories f))"

definition numerical_pipeline_fit :: "env \<Rightarrow> cell option list list \<Rightarrow> error + fitted_numerical" where
  "numerical_pipeline_fit E X =
     and_then (imputer_fit_mean E X) (\<lambda>st.
     and_then (check_array_float E X) (\<lambda>Xf.
     and_then (imputer_transform st Xf) (\<lambda>Z.
     and_then (standard_scaler_fit Z) (\<lambda>s.
     Inr \<lparr>num_statistics = st, scaler = s\<rparr>))))"

definition numerical_pipeline_transform :: "env \<Rightarrow> fitted_numerical \<Rightarrow> cell option list list \<Rightarrow> error + real list list" where
  "numerical_pipeline_transform E f X =
     and_then (check_array_float E X) (\<lambda>Xf.
     and_then (imputer_transform (num_statistics f) Xf) (standard_scaler_transform (scaler f)))"


section \<open>scikit-learn: ColumnTransformer\<close>

text \<open>
  The column transformer is built from three (pipeline, column names) entries and keeps
  the default \<^verbatim>\<open>remainder='drop'\<close>.  Fitted on a data frame, it selects the columns of
  each entry by name, runs \<^verbatim>\<open>fit_transform\<close> of the entries in the order given and
  stacks the results side by side; an entry with no column is skipped.  At
  \<^verbatim>\<open>transform\<close> it raises \<^verbatim>\<open>ValueError\<close> when a column named at fit time is missing,
  and ignores every other column.
\<close>

record fitted_column_transformer =
  nominal_names :: "string list"
  ordinal_names :: "string list"
  numerical_names :: "string list"
  nominal_preprocessor :: "fitted_categorical option"
  ordinal_preprocessor :: "fitted_categorical option"
  numerical_preprocessor :: "fitted_numerical option"

definition select_columns :: "dataframe \<Rightarrow> string list \<Rightarrow> cell option list list" where
  "select_columns df names = map (take_columns df names) (df_values df)"

definition entry_fit_transform ::
  "(cell option list list \<Rightarrow> error + 'f) \<Rightarrow> ('f \<Rightarrow> cell option list list \<Rightarrow> error + real list list) \<Rightarrow>
   dataframe \<Rightarrow> string list \<Rightarrow> error + ('f option \<times> real list list)" where
  "entry_fit_transform fit transform df names =
     (if names = [] then Inr (None, replicate (len df) [])
      else
        and_then (fit (select_columns df names)) (\<lambda>f.
        and_then (transform f (select_columns df names)) (\<lambda>M.
        Inr (Some f, M))))"

definition entry_transform ::
  "('f \<Rightarrow> cell option list list \<Rightarrow> error + real list list) \<Rightarrow> 'f option \<Rightarrow>
   dataframe \<Rightarrow> string list \<Rightarrow> error + real list list" where
  "entry_transform transform f df names =
     (case f of
        None \<Rightarrow> Inr (replicate (len df) [])
      | Some g \<Rightarrow> transform g (select_columns df names))"

definition hstack :: "real list list \<Rightarrow> real list list \<Rightarrow> real list list \<Rightarrow> real list list" where
  "hstack A B C = map (\<lambda>(a, b, c). a @ b @ c) (zip A (zip B C))"

definition column_transformer_fit_transform ::
  "env \<Rightarrow> string list \<Rightarrow> string list \<Rightarrow> string list \<Rightarrow> dataframe \<Rightarrow>
   error + (fitted_column_transformer \<times> real list list)" where
  "column_transformer_fit_transform E nominal ordinal numerical df =
     (if \<not> list_all (\<lambda>n. n \<in> set (columns df)) (nominal @ ordinal @ numerical) then Inl ValueError
      else
        and_then (entry_fit_transform nominal_pipeline_fit nominal_pipeline_transform df nominal) (\<lambda>(fa, A).
        and_then (entry_fit_transform ordinal_pipeline_fit ordinal_pipeline_transform df ordinal) (\<lambda>(fb, B).
        and_then (entry_fit_transform (numerical_pipeline_fit E) (numerical_pipeline_transform E) df numerical) (\<lambda>(fc, C).
        Inr (\<lparr>nominal_names = nominal, ordinal_names = ordinal, numerical_names = numerical,
               nominal_preprocessor = fa, ordinal_preprocessor = fb, numerical_preprocessor = fc\<rparr>,
             hstack A B C)))))"

definition column_transformer_transform ::
  "env \<Rightarrow> fitted_column_transformer \<Rightarrow> dataframe \<Rightarrow> error + real list list" where
  "column_transformer_transform E ct df =
     (if \<not> list_all (\<lambda>n. n \<in> set (columns df)) (nominal_names ct @ ordinal_names ct @ numerical_names ct)
      then Inl ValueError
      else
        and_then (entry_transform nominal_pipeline_transform (nominal_preprocessor ct) df (nominal_names ct)) (\<lambda>A.
        and_then (entry_transform ordinal_pipeline_transform (ordinal_preprocessor ct) df (ordinal_names ct)) (\<lambda>B.
        and_then (entry_transform (numerical_pipeline_transform E) (numerical_preprocessor ct) df (numerical_names ct)) (\<lambda>C.
        Inr (hstack A B C)))))"


section \<open>scikit-learn: LinearRegression, the score and the complete pipeline\<close>

text \<open>
  The target is validated as a numeric vector without NaN.  The coefficients come from
  the least-squares solver of the environment; \<^verbatim>\<open>predict\<close> is
  \<^verbatim>\<open>X @ coef_ + intercept_\<close>.
\<close>

definition check_y :: "env \<Rightarrow> cell option list \<Rightarrow> error + real list" where
  "check_y E y =
     and_then (collect (map (as_float E) y))
       (\<lambda>ys. if None \<in> set ys then Inl ValueError else Inr (observed ys))"

definition linear_regression_fit :: "env \<Rightarrow> real list list \<Rightarrow> cell option list \<Rightarrow> error + (real list \<times> real)" where
  "linear_regression_fit E Xt y =
     and_then (check_array Xt) (\<lambda>X.
     and_then (check_y E y) (\<lambda>yv.
     if length X \<noteq> length yv then Inl ValueError else lstsq E X yv))"

definition linear_regression_predict :: "real list \<Rightarrow> real \<Rightarrow> real list list \<Rightarrow> error + real list" where
  "linear_regression_predict w b Xt =
     and_then (check_array Xt) (\<lambda>X.
     if n_features X \<noteq> length w then Inl ValueError
     else Inr (map (\<lambda>r. sum_list (map2 (*) r w) + b) X))"

text \<open>
  \<^verbatim>\<open>r2_score\<close> with its defaults (\<^verbatim>\<open>force_finite=True\<close>): NaN (\<open>None\<close>) for fewer than
  two samples; 1 for a zero numerator; 0 for a zero denominator with a non-zero
  numerator; otherwise one minus the quotient of the two sums of squares.
\<close>

definition r2_score :: "real list \<Rightarrow> real list \<Rightarrow> error + real option" where
  "r2_score y_true y_pred =
     (if length y_true \<noteq> length y_pred then Inl ValueError
      else if length y_true < 1 then Inl ValueError
      else if length y_pred < 2 then Inr None
      else
        let numerator = sum_list (map2 (\<lambda>t p. (t - p)\<^sup>2) y_true y_pred);
            denominator = sum_sq_dev y_true
        in if numerator \<noteq> 0 \<and> denominator \<noteq> 0 then Inr (Some (1 - numerator / denominator))
           else if numerator \<noteq> 0 then Inr (Some 0)
           else Inr (Some 1))"

record fitted_pipeline =
  preprocessor :: fitted_column_transformer
  coef :: "real list"
  intercept :: real

definition pipeline_fit ::
  "env \<Rightarrow> string list \<Rightarrow> string list \<Rightarrow> string list \<Rightarrow> dataframe \<Rightarrow> cell option list \<Rightarrow>
   error + fitted_pipeline" where
  "pipeline_fit E nominal ordinal numerical X y =
     and_then (column_transformer_fit_transform E nominal ordinal numerical X) (\<lambda>(ct, Xt).
     and_then (linear_regression_fit E Xt y) (\<lambda>(w, b).
     Inr \<lparr>preprocessor = ct, coef = w, intercept = b\<rparr>))"

definition pipeline_predict :: "env \<Rightarrow> fitted_pipeline \<Rightarrow> dataframe \<Rightarrow> error + real list" where
  "pipeline_predict E p X =
     and_then (column_transformer_transform E (preprocessor p) X)
       (linear_regression_predict (coef p) (intercept p))"

definition pipeline_score :: "env \<Rightarrow> fitted_pipeline \<Rightarrow> dataframe \<Rightarrow> cell option list \<Rightarrow> error + real option" where
  "pipeline_score E p X y =
     and_then (pipeline_predict E p X) (\<lambda>y_pred.
     and_then (check_y E y) (\<lambda>y_true.
     r2_score y_true y_pred))"


section \<open>The notebook\<close>

text \<open>
  The column groups of the cell, and the cell itself as a function of the environment
  and of the two tables \<^verbatim>\<open>pd.read_csv\<close> returned.  The state at the end of the cell
  holds every variable the cell assigns.  \<^verbatim>\<open>joblib.dump\<close> followed by \<^verbatim>\<open>joblib.load\<close>
  of the same file is read as handing back the object that was stored; the byte format
  of the file is not part of this development.
\<close>

definition nominal :: "string list" where
  "nominal = [''MSZoning'', ''LotShape'', ''LandContour'', ''LotConfig'', ''Neighborhood'',
              ''Condition1'', ''BldgType'', ''RoofStyle'',
              ''Foundation'', ''CentralAir'', ''SaleType'', ''SaleCondition'']"

definition ordinal :: "string list" where
  "ordinal = [''LandSlope'', ''OverallQual'', ''OverallCond'', ''YearRemodAdd'',
              ''ExterQual'', ''ExterCond'', ''BsmtQual'', ''BsmtCond'', ''BsmtExposure'',
              ''KitchenQual'', ''Functional'', ''GarageCond'', ''PavedDrive'']"

definition numerical :: "string list" where
  "numerical = [''LotFrontage'', ''LotArea'', ''MasVnrArea'', ''BsmtFinSF1'', ''BsmtUnfSF'',
                ''TotalBsmtSF'', ''1stFlrSF'', ''2ndFlrSF'', ''GrLivArea'', ''GarageArea'',
                ''OpenPorchSF'']"

record notebook_state =
  msk :: "bool list"
  val_df :: dataframe
  train_df :: dataframe
  test_df :: dataframe
  train_features :: dataframe
  train_label :: "cell option list"
  val_features :: dataframe
  val_label :: "cell option list"
  test_features :: dataframe
  complete_pipeline :: fitted_pipeline
  score :: "real option"
  pipeline :: fitted_pipeline
  predictions :: "real list"

definition run_cell ::
  "env \<Rightarrow> string list \<Rightarrow> string list \<Rightarrow> string list \<Rightarrow> string \<Rightarrow> dataframe \<Rightarrow> dataframe \<Rightarrow>
   error + notebook_state" where
  "run_cell E nom ord num label train_csv test_csv =
     (let m = map (\<lambda>u. u < 0.8) (np_random_rand E (len train_csv)) in
      and_then (getitem_mask train_csv (map Not m)) (\<lambda>val.
      and_then (getitem_mask train_csv m) (\<lambda>train.
      and_then (getitem_columns train (nom @ ord @ num)) (\<lambda>train_X.
      and_then (getitem_column train label) (\<lambda>train_y.
      and_then (getitem_columns val (nom @ ord @ num)) (\<lambda>val_X.
      and_then (getitem_column val label) (\<lambda>val_y.
      and_then (getitem_columns test_csv (nom @ ord @ num)) (\<lambda>test_X.
      and_then (pipeline_fit E nom ord num train_X train_y) (\<lambda>fitted.
      and_then (pipeline_score E fitted val_X val_y) (\<lambda>sc.
      and_then (pipeline_predict E fitted test_csv) (\<lambda>preds.
      Inr \<lparr>msk = m, val_df = val, train_df = train, test_df = test_csv,
           train_features = train_X, train_label = train_y,
           val_features = val_X, val_label = val_y, test_features = test_X,
           complete_pipeline = fitted, score = sc, pipeline = fitted,
           predictions = preds\<rparr>)))))))))))"

definition notebook :: "env \<Rightarrow> dataframe \<Rightarrow> dataframe \<Rightarrow> error + notebook_state" where
  "notebook E train_csv test_csv = run_cell E nominal ordinal numerical ''SalePrice'' train_csv test_csv"

text \<open>
  The statements of the cell that compute the fitted pipeline, on their own: the mask
  of line 96, the training partition of line 98, its features and label (lines 114 and
  115) and the fit of line 152.
\<close>

definition fit_step ::
  "env \<Rightarrow> string list \<Rightarrow> string list \<Rightarrow> string list \<Rightarrow> string \<Rightarrow> dataframe \<Rightarrow>
   error + fitted_pipeline" where
  "fit_step E nom ord num label train_csv =
     (let m = map (\<lambda>u. u < 0.8) (np_random_rand E (len train_csv)) in
      and_then (getitem_mask train_csv m) (\<lambda>train.
      and_then (getitem_columns train (nom @ ord @ num)) (\<lambda>train_X.
      and_then (getitem_column train label) (\<lambda>train_y.
      pipeline_fit E nom ord num train_X train_y))))"


section \<open>Encounter order, and a small run of the cell\<close>

text \<open>
  The ranking the specification describes for the ordinal encoder, written from its
  words (``an integer rank in the order categories were first encountered at fit
  time''): the distinct values of a column in the order of their first occurrence, and
  the position of a value in that list.  It is compared with the encoder below.
\<close>

definition spec_encounter_order :: "'a list \<Rightarrow> 'a list" where
  "spec_encounter_order vs = rev (remdups (rev vs))"

definition spec_encounter_rank :: "'a list \<Rightarrow> 'a \<Rightarrow> nat" where
  "spec_encounter_rank vs v = index_of (spec_encounter_order vs) v"

text \<open>
  A six-row training table and a two-row test table with one column per group, used to
  run the definitions on concrete data.  The draws send rows 1 and 4 to the validation
  partition; the stand-in solver returns unit coefficients and the mean target.
\<close>

definition example_env :: env where
  "example_env =
     \<lparr>random_sample = (\<lambda>i. if i = 1 \<or> i = 4 then 9 / 10 else 1 / 2),
      py_float = (\<lambda>s. Inl ValueError),
      lstsq = (\<lambda>X y. Inr (replicate (n_features X) 1, np_mean y))\<rparr>"

definition example_train :: dataframe where
  "example_train =
     \<lparr>columns = [''Id'', ''Zone'', ''Qual'', ''Area'', ''Price''],
      rows = [(0, [Some (Num 1), Some (Str ''RL''), Some (Str ''TA''), Some (Num 1), Some (Num 100)]),
              (1, [Some (Num 2), Some (Str ''RM''), Some (Str ''Gd''), Some (Num 2), Some (Num 150)]),
              (2, [Some (Num 3), Some (Str ''RM''), Some (Str ''Gd''), Some (Num 3), Some (Num 300)]),
              (3, [Some (Num 4), None, Some (Str ''TA''), Some (Num 1), Some (Num 100)]),
              (4, [Some (Num 5), Some (Str ''FV''), None, None, Some (Num 250)]),
              (5, [Some (Num 6), Some (Str ''RM''), None, Some (Num 3), Some (Num 300)])]\<rparr>"

definition example_test :: dataframe where
  "example_test =
     \<lparr>columns = [''Area'', ''Id'', ''Qual'', ''Zone'', ''Garage''],
      rows = [(0, [None, Some (Num 7), Some (Str ''Gd''), Some (Str ''FV''), Some (Str ''Attchd'')]),
              (1, [Some (Num 5), Some (Num 8), None, Some (Str ''RL''), None])]\<rparr>"

text \<open>The state the cell ends in on the example (established in \<open>example_run\<close>).\<close>

definition example_pipeline :: fitted_pipeline where
  "example_pipeline =
     \<lparr>preprocessor =
        \<lparr>nominal_names = [''Zone''], ordinal_names = [''Qual''], numerical_names = [''Area''],
         nominal_preprocessor =
           Some \<lparr>statistics = [Some (Str ''RM'')], categories = [[Str ''RL'', Str ''RM'']]\<rparr>,
         ordinal_preprocessor =
           Some \<lparr>statistics = [Some (Str ''TA'')], categories = [[Str ''Gd'', Str ''TA'']]\<rparr>,
         numerical_preprocessor =
           Some \<lparr>num_statistics = [Some 2],
                 scaler = \<lparr>scaler_mean = [2], scaler_var = [1], scaler_scale = [1]\<rparr>\<rparr>\<rparr>,
      coef = [1, 1, 1, 1], intercept = 200\<rparr>"

definition example_state :: notebook_state where
  "example_state =
     \<lparr>msk = [True, False, True, True, False, True],
      val_df =
        \<lparr>columns = [''Id'', ''Zone'', ''Qual'', ''Area'', ''Price''],
         rows = [(1, [Some (Num 2), Some (Str ''RM''), Some (Str ''Gd''), Some (Num 2), Some (Num 150)]),
                 (4, [Some (Num 5), Some (Str ''FV''), None, None, Some (Num 250)])]\<rparr>,
      train_df =
        \<lparr>columns = [''Id'', ''Zone'', ''Qual'', ''Area'', ''Price''],
         rows = [(0, [Some (Num 1), Some (Str ''RL''), Some (Str ''TA''), Some (Num 1), Some (Num 100)]),
                 (2, [Some (Num 3), Some (Str ''RM''), Some (Str ''Gd''), Some (Num 3), Some (Num 300)]),
                 (3, [Some (Num 4), None, Some (Str ''TA''), Some (Num 1), Some (Num 100)]),
                 (5, [Some (Num 6), Some (Str ''RM''), None, Some (Num 3), Some (Num 300)])]\<rparr>,
      test_df = example_test,
      train_features =
        \<lparr>columns = [''Zone'', ''Qual'', ''Area''],
         rows = [(0, [Some (Str ''RL''), Some (Str ''TA''), Some (Num 1)]),
                 (2, [Some (Str ''RM''), Some (Str ''Gd''), Some (Num 3)]),
                 (3, [None, Some (Str ''TA''), Some (Num 1)]),
                 (5, [Some (Str ''RM''), None, Some (Num 3)])]\<rparr>,
      train_label = [Some (Num 100), Some (Num 300), Some (Num 100), Some (Num 300)],
      val_features =
        \<lparr>columns = [''Zone'', ''Qual'', ''Area''],
         rows = [(1, [Some (Str ''RM''), Some (Str ''Gd''), Some (Num 2)]),
                 (4, [Some (Str ''FV''), None, None])]\<rparr>,
      val_label = [Some (Num 150), Some (Num 250)],
      test_features =
        \<lparr>columns = [''Zone'', ''Qual'', ''Area''],
         rows = [(0, [Some (Str ''FV''), Some (Str ''Gd''), None]),
                 (1, [Some (Str ''RL''), None, Some (Num 5)])]\<rparr>,
      complete_pipeline = example_pipeline,
      score = Some (- (1 / 2500)),
      pipeline = example_pipeline,
      predictions = [200, 205]\<rparr>"

text \<open>An empty table whose header carries every column the cell names.\<close>

definition example_header :: dataframe where
  "example_header = \<lparr>columns = ''Id'' # nominal @ ordinal @ numerical @ [''SalePrice''], rows = []\<rparr>"


text \<open>The training table again, with other values in its two validation rows.\<close>

definition example_train_changed :: dataframe where
  "example_train_changed =
     \<lparr>columns = [''Id'', ''Zone'', ''Qual'', ''Area'', ''Price''],
      rows = [(0, [Some (Num 1), Some (Str ''RL''), Some (Str ''TA''), Some (Num 1), Some (Num 100)]),
              (1, [Some (Num 2), Some (Str ''C''), Some (Str ''TA''), Some (Num 70), Some (Num 500)]),
              (2, [Some (Num 3), Some (Str ''RM''), Some (Str ''Gd''), Some (Num 3), Some (Num 300)]),
              (3, [Some (Num 4), None, Some (Str ''TA''), Some (Num 1), Some (Num 100)]),
              (4, [Some (Num 5), None, Some (Str ''Gd''), Some (Num 9), Some (Num 50)]),
              (5, [Some (Num 6), Some (Str ''RM''), None, Some (Num 3), Some (Num 300)])]\<rparr>"


text \<open>
  The training table once more, with a quality grade in validation row 1 that no
  training row has.
\<close>

definition example_train_unseen :: dataframe where
  "example_train_unseen =
     \<lparr>columns = [''Id'', ''Zone'', ''Qual'', ''Area'', ''Price''],
      rows = [(0, [Some (Num 1), Some (Str ''RL''), Some (Str ''TA''), Some (Num 1), Some (Num 100)]),
              (1, [Some (Num 2), Some (Str ''RM''), Some (Str ''Ex''), Some (Num 2), Some (Num 150)]),
              (2, [Some (Num 3), Some (Str ''RM''), Some (Str ''Gd''), Some (Num 3), Some (Num 300)]),
              (3, [Some (Num 4), None, Some (Str ''TA''), Some (Num 1), Some (Num 100)]),
              (4, [Some (Num 5), Some (Str ''FV''), None, None, Some (Num 250)]),
              (5, [Some (Num 6), Some (Str ''RM''), None, Some (Num 3), Some (Num 300)])]\<rparr>"


section \<open>Running the example\<close>

lemmas run_simps =
  run_cell_def example_env_def example_train_def example_test_def
  np_random_rand_def len_def getitem_mask_def getitem_columns_def getitem_column_def
  take_columns_def and_then_def Let_def upt_rec
  pipeline_fit_def pipeline_score_def pipeline_predict_def
  column_transformer_fit_transform_def column_transformer_transform_def
  entry_fit_transform_def entry_transform_def select_columns_def df_values_def hstack_def
  nominal_pipeline_fit_def nominal_pipeline_transform_def
  ordinal_pipeline_fit_def ordinal_pipeline_transform_def
  numerical_pipeline_fit_def numerical_pipeline_transform_def
  imputer_fit_most_frequent_def imputer_fit_mean_def imputer_transform_def impute_row_def
  most_frequent_def mean_statistic_def observed_def uniform_type_def
  check_array_def check_array_float_def as_float_def n_features_def columns_of_def column_def
  encoder_fit_def unique_def ordinal_encoder_transform_def one_hot_encoder_transform_def one_hot_def
  standard_scaler_fit_def standard_scaler_transform_def scale_row_def handle_zeros_in_scale_def
  is_constant_feature_def float64_eps_def
  linear_regression_fit_def linear_regression_predict_def check_y_def r2_score_def
  np_mean_def np_var_def sum_sq_dev_def

lemma example_run:
  "run_cell example_env [''Zone''] [''Qual''] [''Area''] ''Price'' example_train example_test
     = Inr example_state"
  by (simp add: run_simps example_state_def example_pipeline_def)


section \<open>The train/validation split\<close>

lemma kept_union:
  "length ms = length xs \<Longrightarrow>
   set (map fst (filter snd (zip xs ms))) \<union> set (map fst (filter snd (zip xs (map Not ms)))) = set xs"
  by (induction xs ms rule: list_induct2') auto

lemma kept_subset: "set (map fst (filter snd (zip xs ms))) \<subseteq> set xs"
  by (auto dest: set_zip_leftD)

lemma kept_disjoint:
  "length ms = length xs \<Longrightarrow> distinct xs \<Longrightarrow>
   set (map fst (filter snd (zip xs ms))) \<inter> set (map fst (filter snd (zip xs (map Not ms)))) = {}"
proof (induction xs ms rule: list_induct2')
  case (4 x xs m ms)
  have a: "x \<notin> set (map fst (filter snd (zip xs ms)))"
    using 4(3) kept_subset [of xs ms] by auto
  have b: "x \<notin> set (map fst (filter snd (zip xs (map Not ms))))"
    using 4(3) kept_subset [of xs "map Not ms"] by auto
  from 4 a b show ?case by auto
qed simp_all

lemma kept_member:
  "length ms = length xs \<Longrightarrow> distinct xs \<Longrightarrow> i < length xs \<Longrightarrow>
   (xs ! i \<in> set (map fst (filter snd (zip xs ms)))) = ms ! i"
proof (induction xs ms arbitrary: i rule: list_induct2')
  case (4 x xs m ms)
  have a: "x \<notin> set (map fst (filter snd (zip xs ms)))"
    using 4(3) kept_subset [of xs ms] by auto
  show ?case
  proof (cases i)
    case 0
    with a show ?thesis by auto
  next
    case (Suc k)
    with 4 have "(xs ! k \<in> set (map fst (filter snd (zip xs ms)))) = ms ! k" by simp
    moreover have "xs ! k \<noteq> x" using 4(3,4) Suc by auto
    ultimately show ?thesis using Suc by auto
  qed
qed simp_all

lemma distinct_rows: "distinct (map fst (rows df)) \<Longrightarrow> distinct (rows df)"
  by (simp add: distinct_map)

lemma mask_length: "length (map (\<lambda>u. u < 8 / 10) (np_random_rand E (len df))) = len df"
  by (simp add: np_random_rand_def)

lemma mask_nth:
  "i < len df \<Longrightarrow>
   map (\<lambda>u. u < 8 / 10) (np_random_rand E (len df)) ! i = (random_sample E i < 8 / 10)"
  by (simp add: np_random_rand_def)

text \<open>
  Claim C6.  For a training table whose index labels are unique (as \<^verbatim>\<open>read_csv\<close>
  delivers them), the two mask selections of lines 96 to 98 succeed; the training and
  the validation partition have no row in common and together hold exactly the rows of
  the original table; row \<open>i\<close> goes to the training partition exactly when its own draw
  \<open>random_sample E i\<close> is below 0.8 and to the validation partition otherwise; and in
  every completed run of the cell the variables \<^verbatim>\<open>train_df\<close> and \<^verbatim>\<open>val_df\<close> still hold
  these two partitions at the end.  The draws are an input of the model: that they are
  independent and uniform on the unit interval is a property of NumPy's generator, not
  of the cell.
\<close>

theorem train_validation_partition:
  assumes "distinct (map fst (rows df))"
  shows "\<exists>val train.
           getitem_mask df (map Not (map (\<lambda>u. u < 0.8) (np_random_rand E (len df)))) = Inr val \<and>
           getitem_mask df (map (\<lambda>u. u < 0.8) (np_random_rand E (len df))) = Inr train \<and>
           columns val = columns df \<and> columns train = columns df \<and>
           set (rows train) \<inter> set (rows val) = {} \<and>
           set (rows train) \<union> set (rows val) = set (rows df) \<and>
           (\<forall>i. i < len df \<longrightarrow>
              (rows df ! i \<in> set (rows train)) = (random_sample E i < 0.8) \<and>
              (rows df ! i \<in> set (rows val)) = (\<not> random_sample E i < 0.8)) \<and>
           (\<forall>nom ord num label test s.
              run_cell E nom ord num label df test = Inr s \<longrightarrow>
              val_df s = val \<and> train_df s = train)"
proof -
  define m where "m = map (\<lambda>u. u < 8 / 10) (np_random_rand E (len df))"
  define train where "train = df\<lparr>rows := map fst (filter snd (zip (rows df) m))\<rparr>"
  define val where "val = df\<lparr>rows := map fst (filter snd (zip (rows df) (map Not m)))\<rparr>"
  have lm: "length m = length (rows df)"
    unfolding m_def using mask_length [of E df] by (simp add: len_def)
  have d: "distinct (rows df)" using assms by (rule distinct_rows)
  have gv: "getitem_mask df (map Not m) = Inr val"
    using lm by (simp add: getitem_mask_def val_def len_def)
  have gt: "getitem_mask df m = Inr train"
    using lm by (simp add: getitem_mask_def train_def len_def)
  have cols: "columns val = columns df \<and> columns train = columns df"
    by (simp add: val_def train_def)
  have dis: "set (rows train) \<inter> set (rows val) = {}"
    using kept_disjoint [OF lm d] by (simp add: train_def val_def)
  have un: "set (rows train) \<union> set (rows val) = set (rows df)"
    using kept_union [OF lm] by (simp add: train_def val_def)
  have mem: "(rows df ! i \<in> set (rows train)) = (random_sample E i < 0.8) \<and>
             (rows df ! i \<in> set (rows val)) = (\<not> random_sample E i < 0.8)" if i: "i < len df" for i
  proof -
    have i': "i < length (rows df)" using i by (simp add: len_def)
    have mi: "m ! i = (random_sample E i < 8 / 10)"
      unfolding m_def using mask_nth [OF i] .
    have a: "(rows df ! i \<in> set (rows train)) = m ! i"
      using kept_member [OF lm d i'] by (simp add: train_def)
    have lm': "length (map Not m) = length (rows df)" using lm by simp
    have b: "(rows df ! i \<in> set (rows val)) = (map Not m) ! i"
      using kept_member [OF lm' d i'] by (simp add: val_def)
    have c: "(map Not m) ! i = (\<not> m ! i)" using i' lm by simp
    from a b c mi show ?thesis by simp
  qed
  have run: "val_df s = val \<and> train_df s = train"
    if r: "run_cell E nom ord num label df test = Inr s" for nom ord num label test s
  proof -
    from r gv gt show ?thesis
      unfolding run_cell_def Let_def m_def [symmetric]
      by (auto simp: and_then_def split: sum.splits)
  qed
  from gv gt cols dis un mem run show ?thesis
    unfolding m_def by (intro exI [of _ val] exI [of _ train]) simp
qed

theorem train_validation_partition_witness:
  "distinct (map fst (rows example_train)) \<and>
   (\<exists>s. run_cell example_env [''Zone''] [''Qual''] [''Area''] ''Price'' example_train example_test = Inr s \<and>
        map fst (rows (train_df s)) = [0, 2, 3, 5] \<and> map fst (rows (val_df s)) = [1, 4] \<and>
        set (rows (train_df s)) \<inter> set (rows (val_df s)) = {} \<and>
        set (rows (train_df s)) \<union> set (rows (val_df s)) = set (rows example_train))"
proof -
  have h: "distinct (map fst (rows example_train))" by (simp add: example_train_def)
  from train_validation_partition [OF h, of example_env] obtain val train where
    p: "set (rows train) \<inter> set (rows val) = {}"
       "set (rows train) \<union> set (rows val) = set (rows example_train)" and
    r: "\<forall>nom ord num label test s.
          run_cell example_env nom ord num label example_train test = Inr s \<longrightarrow>
          val_df s = val \<and> train_df s = train"
    by blast
  from r example_run have e: "val_df example_state = val \<and> train_df example_state = train"
    by blast
  have i: "map fst (rows (train_df example_state)) = [0, 2, 3, 5] \<and>
           map fst (rows (val_df example_state)) = [1, 4]"
    by (simp add: example_state_def)
  from h example_run p e i show ?thesis by auto
qed


section \<open>Selecting the feature columns\<close>

lemma feature_names_distinct: "distinct (nominal @ ordinal @ numerical)"
  by (simp add: nominal_def ordinal_def numerical_def)

text \<open>
  Claim C8.  The three column lists of the cell are pairwise disjoint and free of
  repetitions.  Selecting them from a table (lines 114, 117 and 120) returns a table
  whose columns are exactly these names in the listed order, with the rows and their
  index labels kept, when every listed name is a column of the table; when a listed
  name is absent, the selection raises and the cell stops with that error.  The error
  pandas raises is \<^verbatim>\<open>KeyError\<close>; the specification files it under the name
  ConfigurationError.
\<close>

theorem feature_selection:
  "distinct (nominal @ ordinal @ numerical) \<and>
   (list_all (\<lambda>n. n \<in> set (columns df)) (nominal @ ordinal @ numerical) \<longrightarrow>
      (\<exists>features. getitem_columns df (nominal @ ordinal @ numerical) = Inr features \<and>
         columns features = nominal @ ordinal @ numerical \<and>
         map fst (rows features) = map fst (rows df))) \<and>
   (\<not> list_all (\<lambda>n. n \<in> set (columns df)) (nominal @ ordinal @ numerical) \<longrightarrow>
      getitem_columns df (nominal @ ordinal @ numerical) = Inl KeyError \<and>
      notebook E df test = Inl KeyError)"
proof -
  have a: "getitem_mask df (map Not (map (\<lambda>u. u < 0.8) (np_random_rand E (len df))))
             = Inr (df\<lparr>rows := map fst (filter snd (zip (rows df)
                 (map Not (map (\<lambda>u. u < 0.8) (np_random_rand E (len df))))))\<rparr>)"
    by (simp add: getitem_mask_def np_random_rand_def)
  have b: "getitem_mask df (map (\<lambda>u. u < 0.8) (np_random_rand E (len df)))
             = Inr (df\<lparr>rows := map fst (filter snd (zip (rows df)
                 (map (\<lambda>u. u < 0.8) (np_random_rand E (len df)))))\<rparr>)"
    by (simp add: getitem_mask_def np_random_rand_def)
  have c: "notebook E df test = Inl KeyError"
    if "\<not> list_all (\<lambda>n. n \<in> set (columns df)) (nominal @ ordinal @ numerical)"
    unfolding notebook_def run_cell_def Let_def a b using that
    by (simp add: and_then_def getitem_columns_def)
  show ?thesis
    using feature_names_distinct c by (simp add: getitem_columns_def comp_def)
qed

theorem feature_selection_witness:
  "list_all (\<lambda>n. n \<in> set (columns example_header)) (nominal @ ordinal @ numerical) \<and>
   (\<exists>features. getitem_columns example_header (nominal @ ordinal @ numerical) = Inr features \<and>
      columns features = nominal @ ordinal @ numerical) \<and>
   \<not> list_all (\<lambda>n. n \<in> set (columns example_train)) (nominal @ ordinal @ numerical) \<and>
   getitem_columns example_train (nominal @ ordinal @ numerical) = Inl KeyError \<and>
   notebook example_env example_train example_test = Inl KeyError"
proof -
  have h1: "list_all (\<lambda>n. n \<in> set (columns example_header)) (nominal @ ordinal @ numerical)"
    by (simp add: example_header_def list_all_iff)
  have h2: "\<not> list_all (\<lambda>n. n \<in> set (columns example_train)) (nominal @ ordinal @ numerical)"
    by (simp add: example_train_def nominal_def)
  from feature_selection [of example_header] h1
  have a: "\<exists>features. getitem_columns example_header (nominal @ ordinal @ numerical) = Inr features \<and>
      columns features = nominal @ ordinal @ numerical"
    by blast
  from feature_selection [of example_train example_env example_test] h2
  have b: "getitem_columns example_train (nominal @ ordinal @ numerical) = Inl KeyError \<and>
      notebook example_env example_train example_test = Inl KeyError"
    by blast
  from h1 h2 a b show ?thesis by simp
qed


section \<open>The score\<close>

lemma np_var_nonzero_length: "np_var y \<noteq> 0 \<Longrightarrow> 2 \<le> length y"
proof (rule ccontr)
  assume nz: "np_var y \<noteq> 0" and "\<not> 2 \<le> length y"
  then consider "y = []" | a where "y = [a]"
    by (cases y; cases "tl y") auto
  then show False
    using nz by cases (simp_all add: np_var_def sum_sq_dev_def np_mean_def)
qed

lemma np_var_nonzero_sum_sq_dev: "np_var y \<noteq> 0 \<Longrightarrow> sum_sq_dev y \<noteq> 0"
  by (auto simp: np_var_def)

lemma residuals_self: "sum_list (map2 (\<lambda>t p. (t - p)\<^sup>2) y y) = (0::real)"
  by (induction y) simp_all




section \<open>Error plumbing and arrays\<close>

lemma and_then_Inr [simp]: "and_then (Inr x) f = f x"
  by (simp add: and_then_def)

lemma and_then_Inl [simp]: "and_then (Inl e) f = Inl e"
  by (simp add: and_then_def)

lemma and_then_eq_Inr: "and_then m f = Inr y \<longleftrightarrow> (\<exists>x. m = Inr x \<and> f x = Inr y)"
  by (cases m) simp_all

lemma collect_map_Inr_id: "collect (map Inr ys) = Inr ys"
  by (induction ys) simp_all

lemma collect_Inr_D: "collect xs = Inr ys \<Longrightarrow> xs = map Inr ys"
  by (induction xs arbitrary: ys) (auto split: sum.splits)

lemma collect_eq_Inr: "collect xs = Inr ys \<longleftrightarrow> xs = map Inr ys"
  using collect_map_Inr_id collect_Inr_D by metis

lemma collect_map_Inr:
  assumes "collect (map f xs) = Inr ys"
  shows "length ys = length xs" and "\<And>i. i < length xs \<Longrightarrow> f (xs ! i) = Inr (ys ! i)"
proof -
  from assms have e: "map f xs = map Inr ys" by (simp add: collect_eq_Inr)
  then show l: "length ys = length xs" by (metis length_map)
  fix i assume "i < length xs"
  with e l show "f (xs ! i) = Inr (ys ! i)" by (metis nth_map)
qed

lemma check_array_eq_Inr: "check_array X = Inr Y \<longleftrightarrow> X \<noteq> [] \<and> 0 < n_features X \<and> Y = X"
  by (cases X) (auto simp: check_array_def)

lemma check_array_ok: "X \<noteq> [] \<Longrightarrow> 0 < n_features X \<Longrightarrow> check_array X = Inr X"
  by (simp add: check_array_eq_Inr)

lemma rect_nth: "rect X \<Longrightarrow> i < length X \<Longrightarrow> length (X ! i) = n_features X"
  by (simp add: rect_def list_all_length)

lemma length_columns_of [simp]: "length (columns_of X) = n_features X"
  by (simp add: columns_of_def)

lemma nth_columns_of [simp]: "j < n_features X \<Longrightarrow> columns_of X ! j = column X j"
  by (simp add: columns_of_def)

section \<open>Standardisation\<close>

lemma sum_sq_dev_zero: "sum_sq_dev c = 0 \<Longrightarrow> x \<in> set c \<Longrightarrow> x - np_mean c = 0"
proof -
  assume z: "sum_sq_dev c = 0" and x: "x \<in> set c"
  have "\<forall>y\<in>set (map (\<lambda>x. (x - np_mean c)\<^sup>2) c). y = 0"
    using z unfolding sum_sq_dev_def
    by (subst (asm) sum_list_nonneg_eq_0_iff) auto
  with x have "(x - np_mean c)\<^sup>2 = 0" by auto
  then show ?thesis by simp
qed

lemma np_var_zero: "np_var c = 0 \<Longrightarrow> x \<in> set c \<Longrightarrow> x - np_mean c = 0"
proof -
  assume v: "np_var c = 0" and x: "x \<in> set c"
  then have "c \<noteq> []" by auto
  with v have "sum_sq_dev c = 0" by (simp add: np_var_def)
  with x show ?thesis by (rule sum_sq_dev_zero [rotated -1]) 
qed

lemma sum_sq_dev_nonneg: "0 \<le> sum_sq_dev c"
  unfolding sum_sq_dev_def by (rule sum_list_nonneg) auto

lemma np_var_nonneg: "0 \<le> np_var c"
  by (simp add: np_var_def sum_sq_dev_nonneg)

lemma zero_variance_is_constant: "is_constant_feature 0 m n"
  by (simp add: is_constant_feature_def)

lemma not_constant_positive:
  assumes "\<not> is_constant_feature (np_var c) m n"
  shows "0 < sqrt (np_var c)"
proof -
  have "np_var c \<noteq> 0" using assms zero_variance_is_constant [of m n] by auto
  with np_var_nonneg [of c] have "0 < np_var c" by simp
  then show ?thesis by simp
qed

lemma length_column [simp]: "length (column Z j) = length Z"
  by (simp add: column_def)

lemma standard_scaler_fit_fields:
  assumes "standard_scaler_fit Z = Inr s"
  shows "0 < n_features Z"
    and "scaler_mean s = map np_mean (columns_of Z)"
    and "scaler_var s = map np_var (columns_of Z)"
    and "scaler_scale s =
           map (\<lambda>c. handle_zeros_in_scale (sqrt (np_var c))
                       (is_constant_feature (np_var c) (np_mean c) (length c)))
             (columns_of Z)"
  using assms by (auto simp: standard_scaler_fit_def and_then_eq_Inr check_array_eq_Inr)





section \<open>Imputation and the encoders\<close>

lemma length_impute_row:
  "length st \<le> length r \<Longrightarrow> length (impute_row st r) = length (observed st)"
proof (induction st arbitrary: r)
  case Nil
  then show ?case by (simp add: impute_row_def observed_def)
next
  case (Cons s st)
  then obtain x r' where r: "r = x # r'" by (cases r) auto
  with Cons have "length (impute_row st r') = length (observed st)" by simp
  then show ?case
    by (cases s) (simp_all add: r impute_row_def observed_def)
qed

lemma imputer_transform_eq_Inr:
  "imputer_transform st X = Inr Z \<longleftrightarrow>
     X \<noteq> [] \<and> 0 < n_features X \<and> n_features X = length st \<and> Z = map (impute_row st) X"
  by (auto simp: imputer_transform_def and_then_eq_Inr check_array_eq_Inr)

lemma n_features_imputed:
  "X \<noteq> [] \<Longrightarrow> n_features X = length st \<Longrightarrow>
   n_features (map (impute_row st) X) = length (observed st)"
  by (cases X) (simp_all add: n_features_def length_impute_row)

lemma rect_imputed:
  assumes "rect X" "n_features X = length st"
  shows "rect (map (impute_row st) X)"
proof (cases X)
  case Nil
  then show ?thesis by (simp add: rect_def)
next
  case (Cons r rs)
  have n: "n_features (map (impute_row st) X) = length (observed st)"
    using Cons assms(2) by (intro n_features_imputed) simp_all
  have "\<forall>r\<in>set X. length r = length st"
    using assms by (simp add: rect_def list_all_iff)
  then have "\<forall>r\<in>set X. length (impute_row st r) = length (observed st)"
    by (simp add: length_impute_row)
  with n show ?thesis by (simp add: rect_def list_all_iff)
qed

lemma unique_eq_Inr: "unique vs = Inr c \<longleftrightarrow> uniform_type vs \<and> c = sort (remdups vs)"
  by (auto simp: unique_def)

lemma encoder_fit_fields:
  assumes "encoder_fit Z = Inr cats"
  shows "Z \<noteq> []" and "0 < n_features Z" and "length cats = n_features Z"
    and "\<And>j. j < n_features Z \<Longrightarrow> cats ! j = sort (remdups (column Z j))"
proof -
  from assms have z: "Z \<noteq> []" "0 < n_features Z" and c: "collect (map unique (columns_of Z)) = Inr cats"
    by (auto simp: encoder_fit_def and_then_eq_Inr check_array_eq_Inr)
  show "Z \<noteq> []" "0 < n_features Z" by fact+
  from collect_map_Inr(1) [OF c] show l: "length cats = n_features Z" by simp
  fix j assume j: "j < n_features Z"
  then have "unique (columns_of Z ! j) = Inr (cats ! j)"
    using collect_map_Inr(2) [OF c, of j] by simp
  with j show "cats ! j = sort (remdups (column Z j))"
    by (simp add: unique_eq_Inr)
qed

lemma ordinal_pipeline_fit_fields:
  assumes "ordinal_pipeline_fit X = Inr f"
  shows "\<exists>Z. imputer_transform (statistics f) X = Inr Z \<and> encoder_fit Z = Inr (categories f)"
  using assms by (auto simp: ordinal_pipeline_fit_def and_then_eq_Inr)

lemma nominal_pipeline_fit_fields:
  assumes "nominal_pipeline_fit X = Inr f"
  shows "\<exists>Z. imputer_transform (statistics f) X = Inr Z \<and> encoder_fit Z = Inr (categories f)"
  using assms by (auto simp: nominal_pipeline_fit_def and_then_eq_Inr)

lemma list_all_nth: "list_all P xs \<Longrightarrow> n < length xs \<Longrightarrow> P (xs ! n)"
  by (simp add: list_all_length)

lemma index_of_sorted:
  "sorted xs \<Longrightarrow> distinct xs \<Longrightarrow> v \<in> set xs \<Longrightarrow> index_of xs v = card {u \<in> set xs. u < v}"
proof (induction xs)
  case Nil
  then show ?case by simp
next
  case (Cons a xs)
  show ?case
  proof (cases "a = v")
    case True
    have "{u \<in> set (a # xs). u < v} = {}" using Cons.prems(1) True by auto
    with True show ?thesis by simp
  next
    case False
    with Cons.prems have v: "v \<in> set xs" and av: "a < v" by auto
    have ih: "index_of xs v = card {u \<in> set xs. u < v}"
      using Cons.IH Cons.prems v by simp
    have "{u \<in> set (a # xs). u < v} = insert a {u \<in> set xs. u < v}" using av by auto
    moreover have "a \<notin> {u \<in> set xs. u < v}" using Cons.prems(2) by simp
    ultimately have "card {u \<in> set (a # xs). u < v} = Suc (card {u \<in> set xs. u < v})"
      by simp
    with ih False show ?thesis by simp
  qed
qed

lemma index_of_categories:
  "v \<in> set c \<Longrightarrow> index_of (sort (remdups c)) v = card {u \<in> set c. u < v}"
  using index_of_sorted [of "sort (remdups c)" v] by simp

lemma ordinal_encoder_transform_eq_Inr:
  "ordinal_encoder_transform cats V = Inr M \<longleftrightarrow>
     V \<noteq> [] \<and> 0 < n_features V \<and> n_features V = length cats \<and>
     list_all (\<lambda>r. list_all (\<lambda>(v, c). v \<in> set c) (zip r cats)) V \<and>
     M = map (\<lambda>r. map (\<lambda>(v, c). real (index_of c v)) (zip r cats)) V"
  by (auto simp: ordinal_encoder_transform_def and_then_eq_Inr check_array_eq_Inr)

text \<open>
  Claim C3, as the code computes it.  Let the ordinal pipeline be fitted on \<open>X\<close>, with
  \<open>Z\<close> the fit data after most-frequent imputation, and let \<open>W\<close> be a table it
  transforms, with \<open>V\<close> the imputed \<open>W\<close>.  The categories of column \<open>j\<close> are the distinct
  values of column \<open>j\<close> of \<open>Z\<close> in ascending order, and the code of every value is its
  rank in that order: the number of distinct fit values of the column that are smaller.
  The order of first encounter plays no part.
\<close>

theorem ordinal_codes_ascending:
  assumes fit: "ordinal_pipeline_fit X = Inr f"
    and zf: "imputer_transform (statistics f) X = Inr Z"
    and zw: "imputer_transform (statistics f) W = Inr V"
    and tw: "ordinal_pipeline_transform f W = Inr M"
    and W: "rect W" and ij: "i < length W" "j < n_features Z"
  shows "categories f ! j = sort (remdups (column Z j)) \<and>
         V ! i ! j \<in> set (column Z j) \<and>
         M ! i ! j = real (card {u \<in> set (column Z j). u < V ! i ! j})"
proof -
  from ordinal_pipeline_fit_fields [OF fit] zf have ef: "encoder_fit Z = Inr (categories f)"
    by auto
  note e = encoder_fit_fields [OF ef]
  have cj: "categories f ! j = sort (remdups (column Z j))" using e(4) ij(2) by simp
  from zf have x: "X \<noteq> []" "n_features X = length (statistics f)" "Z = map (impute_row (statistics f)) X"
    by (auto simp: imputer_transform_eq_Inr)
  from zw have w: "W \<noteq> []" "n_features W = length (statistics f)" "V = map (impute_row (statistics f)) W"
    by (auto simp: imputer_transform_eq_Inr)
  have nz: "n_features Z = length (observed (statistics f))"
    unfolding x(3) using x(1,2) by (rule n_features_imputed)
  have rv: "rect V"
    unfolding w(3) using W w(2) by (rule rect_imputed)
  have nv: "n_features V = length (observed (statistics f))"
    unfolding w(3) using w(1,2) by (rule n_features_imputed)
  have lv: "length V = length W" using w(3) by simp
  have li: "length (V ! i) = n_features Z" using rect_nth [OF rv] ij(1) lv nv nz by simp
  from tw zw have t: "ordinal_encoder_transform (categories f) V = Inr M"
    by (simp add: ordinal_pipeline_transform_def)
  then have all: "list_all (\<lambda>r. list_all (\<lambda>(v, c). v \<in> set c) (zip r (categories f))) V"
    and m: "M = map (\<lambda>r. map (\<lambda>(v, c). real (index_of c v)) (zip r (categories f))) V"
    by (auto simp: ordinal_encoder_transform_eq_Inr)
  have jz: "j < length (zip (V ! i) (categories f))" using li e(3) ij(2) by simp
  have iv: "i < length V" using ij(1) lv by simp
  have mem: "V ! i ! j \<in> set (categories f ! j)"
    using list_all_nth [OF list_all_nth [OF all iv] jz] jz by simp
  with cj have mem': "V ! i ! j \<in> set (column Z j)" by simp
  have "M ! i ! j = real (index_of (categories f ! j) (V ! i ! j))"
    using m ij(1) lv jz by simp
  with cj mem' have "M ! i ! j = real (card {u \<in> set (column Z j). u < V ! i ! j})"
    by (simp add: index_of_categories)
  with cj mem' show ?thesis by simp
qed

text \<open>
  Claim C9.  Let the ordinal pipeline be fitted on \<open>X\<close>, with \<open>Z\<close> the fit data after
  imputation.  If a table \<open>W\<close> holds, after imputation with the fitted statistics, a
  value in some column that does not occur in that column of \<open>Z\<close>, then the ordinal
  transform raises \<^verbatim>\<open>ValueError\<close> and produces no encoding.  (The nominal transform
  of Claim C4 returns a row of zeros in the same situation.)
\<close>

theorem ordinal_unseen_category_raises:
  assumes fit: "ordinal_pipeline_fit X = Inr f"
    and zf: "imputer_transform (statistics f) X = Inr Z"
    and zw: "imputer_transform (statistics f) W = Inr V"
    and W: "rect W" and ij: "i < length W" "j < n_features Z"
    and unseen: "V ! i ! j \<notin> set (column Z j)"
  shows "ordinal_pipeline_transform f W = Inl ValueError"
proof -
  from ordinal_pipeline_fit_fields [OF fit] zf have ef: "encoder_fit Z = Inr (categories f)"
    by auto
  note e = encoder_fit_fields [OF ef]
  have cj: "categories f ! j = sort (remdups (column Z j))" using e(4) ij(2) by simp
  from zf have x: "X \<noteq> []" "n_features X = length (statistics f)" "Z = map (impute_row (statistics f)) X"
    by (auto simp: imputer_transform_eq_Inr)
  from zw have w: "W \<noteq> []" "n_features W = length (statistics f)" "V = map (impute_row (statistics f)) W"
    by (auto simp: imputer_transform_eq_Inr)
  have nz: "n_features Z = length (observed (statistics f))"
    unfolding x(3) using x(1,2) by (rule n_features_imputed)
  have rv: "rect V"
    unfolding w(3) using W w(2) by (rule rect_imputed)
  have nv: "n_features V = length (observed (statistics f))"
    unfolding w(3) using w(1,2) by (rule n_features_imputed)
  have lv: "length V = length W" using w(3) by simp
  have li: "length (V ! i) = n_features Z" using rect_nth [OF rv] ij(1) lv nv nz by simp
  have jz: "j < length (zip (V ! i) (categories f))" using li e(3) ij(2) by simp
  have bad: "\<not> list_all (\<lambda>r. list_all (\<lambda>(v, c). v \<in> set c) (zip r (categories f))) V"
  proof
    assume all: "list_all (\<lambda>r. list_all (\<lambda>(v, c). v \<in> set c) (zip r (categories f))) V"
    have iv: "i < length V" using ij(1) lv by simp
    have "V ! i ! j \<in> set (categories f ! j)"
      using list_all_nth [OF list_all_nth [OF all iv] jz] jz by simp
    with cj unseen show False by simp
  qed
  have v: "V \<noteq> []" using w by simp
  have "ordinal_encoder_transform (categories f) V = Inl ValueError"
    using bad v nv nz e(2,3) by (simp add: ordinal_encoder_transform_def check_array_ok)
  with zw show ?thesis by (simp add: ordinal_pipeline_transform_def)
qed

text \<open>
  The claim as stated (rank by the order of first encounter) fails on the column
  \<open>TA, Gd\<close>: first encounter ranks \<open>TA\<close> 0 and \<open>Gd\<close> 1, the fitted pipeline encodes
  \<open>TA\<close> as 1 and \<open>Gd\<close> as 0.
\<close>

theorem ordinal_encounter_order_counterexample:
  "ordinal_pipeline_fit [[Some (Str ''TA'')], [Some (Str ''Gd'')]]
     = Inr \<lparr>statistics = [Some (Str ''Gd'')], categories = [[Str ''Gd'', Str ''TA'']]\<rparr> \<and>
   ordinal_pipeline_transform \<lparr>statistics = [Some (Str ''Gd'')], categories = [[Str ''Gd'', Str ''TA'']]\<rparr>
       [[Some (Str ''TA'')], [Some (Str ''Gd'')]]
     = Inr [[1], [0]] \<and>
   spec_encounter_rank [Str ''TA'', Str ''Gd''] (Str ''TA'') = 0 \<and>
   spec_encounter_rank [Str ''TA'', Str ''Gd''] (Str ''Gd'') = 1"
  by (simp add: run_simps spec_encounter_rank_def spec_encounter_order_def min_def)

lemma example_ordinal_fit:
  "ordinal_pipeline_fit [[Some (Str ''TA'')], [Some (Str ''Gd'')], [Some (Str ''TA'')], [None]]
     = Inr \<lparr>statistics = [Some (Str ''TA'')], categories = [[Str ''Gd'', Str ''TA'']]\<rparr>"
  by (simp add: run_simps)

lemma example_ordinal_imputed:
  "imputer_transform (statistics \<lparr>statistics = [Some (Str ''TA'')], categories = [[Str ''Gd'', Str ''TA'']]\<rparr>)
       [[Some (Str ''TA'')], [Some (Str ''Gd'')], [Some (Str ''TA'')], [None]]
     = Inr [[Str ''TA''], [Str ''Gd''], [Str ''TA''], [Str ''TA'']]"
  by (simp add: run_simps)

theorem ordinal_codes_ascending_witness:
  "ordinal_pipeline_fit [[Some (Str ''TA'')], [Some (Str ''Gd'')], [Some (Str ''TA'')], [None]]
     = Inr \<lparr>statistics = [Some (Str ''TA'')], categories = [[Str ''Gd'', Str ''TA'']]\<rparr> \<and>
   ordinal_pipeline_transform \<lparr>statistics = [Some (Str ''TA'')], categories = [[Str ''Gd'', Str ''TA'']]\<rparr>
       [[Some (Str ''Gd'')], [None]] = Inr [[0], [1]] \<and>
   rect [[Some (Str ''Gd'')], [None]] \<and>
   [[0 :: real], [1]] ! 1 ! 0
     = real (card {u \<in> set (column [[Str ''TA''], [Str ''Gd''], [Str ''TA''], [Str ''TA'']] 0).
                   u < [[Str ''Gd''], [Str ''TA'']] ! 1 ! 0})"
proof -
  have zw: "imputer_transform (statistics \<lparr>statistics = [Some (Str ''TA'')], categories = [[Str ''Gd'', Str ''TA'']]\<rparr>)
       [[Some (Str ''Gd'')], [None]] = Inr [[Str ''Gd''], [Str ''TA'']]"
    by (simp add: run_simps)
  have tw: "ordinal_pipeline_transform \<lparr>statistics = [Some (Str ''TA'')], categories = [[Str ''Gd'', Str ''TA'']]\<rparr>
       [[Some (Str ''Gd'')], [None]] = Inr [[0], [1]]"
    by (simp add: run_simps)
  have r: "rect [[Some (Str ''Gd'')], [None :: cell option]]" by (simp add: rect_def n_features_def)
  have i: "(1 :: nat) < length [[Some (Str ''Gd'')], [None :: cell option]]" by simp
  have j: "(0 :: nat) < n_features [[Str ''TA''], [Str ''Gd''], [Str ''TA''], [Str ''TA'']]"
    by (simp add: n_features_def)
  from ordinal_codes_ascending [OF example_ordinal_fit example_ordinal_imputed zw tw r i j]
    example_ordinal_fit tw r
  show ?thesis by simp
qed

theorem ordinal_unseen_category_raises_witness:
  "ordinal_pipeline_fit [[Some (Str ''TA'')], [Some (Str ''Gd'')], [Some (Str ''TA'')], [None]]
     = Inr \<lparr>statistics = [Some (Str ''TA'')], categories = [[Str ''Gd'', Str ''TA'']]\<rparr> \<and>
   rect [[Some (Str ''Gd'')], [Some (Str ''Ex'')]] \<and>
   [[Str ''Gd''], [Str ''Ex'']] ! 1 ! 0 \<notin> set (column [[Str ''TA''], [Str ''Gd''], [Str ''TA''], [Str ''TA'']] 0) \<and>
   ordinal_pipeline_transform \<lparr>statistics = [Some (Str ''TA'')], categories = [[Str ''Gd'', Str ''TA'']]\<rparr>
       [[Some (Str ''Gd'')], [Some (Str ''Ex'')]] = Inl ValueError"
proof -
  have zw: "imputer_transform (statistics \<lparr>statistics = [Some (Str ''TA'')], categories = [[Str ''Gd'', Str ''TA'']]\<rparr>)
       [[Some (Str ''Gd'')], [Some (Str ''Ex'')]] = Inr [[Str ''Gd''], [Str ''Ex'']]"
    by (simp add: run_simps)
  have r: "rect [[Some (Str ''Gd'')], [Some (Str ''Ex'')]]" by (simp add: rect_def n_features_def)
  have i: "(1 :: nat) < length [[Some (Str ''Gd'')], [Some (Str ''Ex'')]]" by simp
  have j: "(0 :: nat) < n_features [[Str ''TA''], [Str ''Gd''], [Str ''TA''], [Str ''TA'']]"
    by (simp add: n_features_def)
  have u: "[[Str ''Gd''], [Str ''Ex'']] ! 1 ! 0 \<notin> set (column [[Str ''TA''], [Str ''Gd''], [Str ''TA''], [Str ''TA'']] 0)"
    by (simp add: column_def)
  from ordinal_unseen_category_raises [OF example_ordinal_fit example_ordinal_imputed zw r i j u]
    example_ordinal_fit r u
  show ?thesis by simp
qed

subsection \<open>One-hot encoding\<close>

lemma one_hot_unseen: "v \<notin> set c \<Longrightarrow> one_hot c v = replicate (length c) 0"
  by (induction c) (auto simp: one_hot_def)

lemma one_hot_seen:
  "distinct c \<Longrightarrow> v \<in> set c \<Longrightarrow> one_hot c v = (replicate (length c) 0)[index_of c v := 1]"
proof (induction c)
  case Nil
  then show ?case by simp
next
  case (Cons a c)
  show ?case
  proof (cases "a = v")
    case True
    with Cons.prems have "v \<notin> set c" by simp
    then have "one_hot c v = replicate (length c) 0" by (rule one_hot_unseen)
    with True show ?thesis by (simp add: one_hot_def)
  next
    case False
    with Cons have "one_hot c v = (replicate (length c) 0)[index_of c v := 1]" by simp
    with False show ?thesis by (simp add: one_hot_def)
  qed
qed

lemma encoder_fit_distinct:
  assumes "encoder_fit Z = Inr cats" "c \<in> set cats"
  shows "distinct c"
proof -
  from assms(2) obtain j where j: "j < length cats" "c = cats ! j"
    by (auto simp: in_set_conv_nth)
  with encoder_fit_fields(3,4) [OF assms(1)] have "c = sort (remdups (column Z j))" by simp
  then show ?thesis by simp
qed




section \<open>The column transformer selects by name\<close>

lemma get_loc_less: "n \<in> set cs \<Longrightarrow> get_loc cs n < length cs"
  by (induction cs) auto

lemma nth_get_loc: "n \<in> set cs \<Longrightarrow> cs ! get_loc cs n = n"
  by (induction cs) auto

lemma take_columns_restricted:
  assumes g: "getitem_columns df feats = Inr restricted" and sub: "set names \<subseteq> set feats"
  shows "take_columns restricted names (take_columns df feats r) = take_columns df names r"
proof -
  from g have c: "columns restricted = feats"
    by (auto simp: getitem_columns_def split: if_splits)
  have "(map (\<lambda>m. r ! get_loc (columns df) m) feats) ! get_loc feats n = r ! get_loc (columns df) n"
    if "n \<in> set names" for n
  proof -
    from that sub have n: "n \<in> set feats" by auto
    then show ?thesis by (simp add: get_loc_less nth_get_loc)
  qed
  then show ?thesis by (simp add: take_columns_def c)
qed

lemma select_columns_restricted:
  assumes g: "getitem_columns df feats = Inr restricted" and sub: "set names \<subseteq> set feats"
  shows "select_columns restricted names = select_columns df names"
proof -
  from g have v: "df_values restricted = map (take_columns df feats) (df_values df)"
    by (auto simp: getitem_columns_def df_values_def comp_def split: if_splits)
  show ?thesis
    unfolding select_columns_def v
    by (simp add: take_columns_restricted [OF g sub])
qed

lemma len_restricted: "getitem_columns df feats = Inr restricted \<Longrightarrow> len restricted = len df"
  by (auto simp: getitem_columns_def len_def split: if_splits)

lemma entry_transform_restricted:
  assumes g: "getitem_columns df feats = Inr restricted" and sub: "set names \<subseteq> set feats"
  shows "entry_transform tr f restricted names = entry_transform tr f df names"
  by (cases f)
    (simp_all add: entry_transform_def select_columns_restricted [OF g sub] len_restricted [OF g])

text \<open>
  Claim C10.  For a table that has every column the fitted column transformer was
  configured with, the transformer's output and the pipeline's predictions on the full
  table equal those on the table restricted to the configured feature columns: the
  columns are taken by name and every other column is dropped.  Column labels are
  unique, as in every table \<^verbatim>\<open>read_csv\<close> returns and in the three lists of the cell.
\<close>

theorem predict_ignores_other_columns:
  assumes g: "getitem_columns df (nominal_names (preprocessor p) @ ordinal_names (preprocessor p) @
                                  numerical_names (preprocessor p)) = Inr restricted"
    and "distinct (columns df)"
    and "distinct (nominal_names (preprocessor p) @ ordinal_names (preprocessor p) @
                   numerical_names (preprocessor p))"
  shows "column_transformer_transform E (preprocessor p) df
           = column_transformer_transform E (preprocessor p) restricted \<and>
         pipeline_predict E p df = pipeline_predict E p restricted"
proof -
  let ?ct = "preprocessor p"
  let ?feats = "nominal_names ?ct @ ordinal_names ?ct @ numerical_names ?ct"
  from g have present: "list_all (\<lambda>n. n \<in> set (columns df)) ?feats"
    by (auto simp: getitem_columns_def split: if_splits)
  from g have c: "columns restricted = ?feats"
    by (auto simp: getitem_columns_def split: if_splits)
  have present': "list_all (\<lambda>n. n \<in> set (columns restricted)) ?feats"
    unfolding c by (simp add: list_all_iff)
  have a: "entry_transform nominal_pipeline_transform (nominal_preprocessor ?ct) restricted (nominal_names ?ct)
         = entry_transform nominal_pipeline_transform (nominal_preprocessor ?ct) df (nominal_names ?ct)"
    by (rule entry_transform_restricted [OF g]) auto
  have b: "entry_transform ordinal_pipeline_transform (ordinal_preprocessor ?ct) restricted (ordinal_names ?ct)
         = entry_transform ordinal_pipeline_transform (ordinal_preprocessor ?ct) df (ordinal_names ?ct)"
    by (rule entry_transform_restricted [OF g]) auto
  have d: "entry_transform (numerical_pipeline_transform E) (numerical_preprocessor ?ct) restricted (numerical_names ?ct)
         = entry_transform (numerical_pipeline_transform E) (numerical_preprocessor ?ct) df (numerical_names ?ct)"
    by (rule entry_transform_restricted [OF g]) auto
  have t: "column_transformer_transform E ?ct df = column_transformer_transform E ?ct restricted"
    unfolding column_transformer_transform_def a b d using present present' by simp
  then show ?thesis by (simp add: pipeline_predict_def)
qed

lemma example_restricted:
  "getitem_columns example_test
      (nominal_names (preprocessor example_pipeline) @ ordinal_names (preprocessor example_pipeline) @
       numerical_names (preprocessor example_pipeline))
     = Inr (test_features example_state)"
  by (simp add: example_pipeline_def example_state_def example_test_def getitem_columns_def take_columns_def)

theorem predict_ignores_other_columns_witness:
  "getitem_columns example_test [''Zone'', ''Qual'', ''Area''] = Inr (test_features example_state) \<and>
   distinct (columns example_test) \<and> distinct [''Zone'', ''Qual'', ''Area''] \<and>
   columns example_test \<noteq> columns (test_features example_state) \<and>
   pipeline_predict example_env example_pipeline example_test = Inr [200, 205] \<and>
   pipeline_predict example_env example_pipeline (test_features example_state) = Inr [200, 205]"
proof -
  have d1: "distinct (columns example_test)" by (simp add: example_test_def)
  have d2: "distinct (nominal_names (preprocessor example_pipeline) @
                      ordinal_names (preprocessor example_pipeline) @
                      numerical_names (preprocessor example_pipeline))"
    by (simp add: example_pipeline_def)
  have n: "nominal_names (preprocessor example_pipeline) @ ordinal_names (preprocessor example_pipeline) @
           numerical_names (preprocessor example_pipeline) = [''Zone'', ''Qual'', ''Area'']"
    by (simp add: example_pipeline_def)
  have ne: "columns example_test \<noteq> columns (test_features example_state)"
    by (simp add: example_test_def example_state_def)
  have p: "pipeline_predict example_env example_pipeline example_test = Inr [200, 205]"
    by (simp add: run_simps example_pipeline_def)
  from predict_ignores_other_columns [OF example_restricted d1 d2, of example_env]
    example_restricted d1 n ne p
  show ?thesis by simp
qed


section \<open>Fitting reads the training partition only\<close>

lemma kept_cong:
  "length xs = length ms \<Longrightarrow> length ys = length ms \<Longrightarrow>
   (\<And>i. i < length ms \<Longrightarrow> ms ! i \<Longrightarrow> xs ! i = ys ! i) \<Longrightarrow>
   map fst (filter snd (zip xs ms)) = map fst (filter snd (zip ys ms))"
proof (induction ms arbitrary: xs ys)
  case Nil
  then show ?case by simp
next
  case (Cons m ms)
  from Cons.prems(1,2) obtain x xs' y ys' where xs: "xs = x # xs'" and ys: "ys = y # ys'"
    by (cases xs; cases ys) auto
  have tl: "map fst (filter snd (zip xs' ms)) = map fst (filter snd (zip ys' ms))"
  proof (rule Cons.IH)
    show "length xs' = length ms" "length ys' = length ms" using Cons.prems(1,2) xs ys by auto
    fix i assume "i < length ms" "ms ! i"
    then show "xs' ! i = ys' ! i" using Cons.prems(3) [of "Suc i"] xs ys by simp
  qed
  have hd: "m \<Longrightarrow> x = y" using Cons.prems(3) [of 0] xs ys by simp
  from tl hd show ?case by (auto simp: xs ys)
qed

lemma run_cell_fit:
  assumes "run_cell E nom ord num label df t = Inr s"
  shows "\<exists>tr X y.
           getitem_mask df (map (\<lambda>u. u < 0.8) (np_random_rand E (len df))) = Inr tr \<and>
           getitem_columns tr (nom @ ord @ num) = Inr X \<and>
           getitem_column tr label = Inr y \<and>
           pipeline_fit E nom ord num X y = Inr (complete_pipeline s) \<and>
           pipeline s = complete_pipeline s"
  using assms unfolding run_cell_def Let_def
  by (auto simp: and_then_eq_Inr)

section \<open>Transforming is row by row\<close>

lemma one_hot_encoder_transform_eq_Inr:
  "one_hot_encoder_transform cats V = Inr M \<longleftrightarrow>
     V \<noteq> [] \<and> 0 < n_features V \<and> n_features V = length cats \<and>
     M = map (\<lambda>r. concat (map (\<lambda>(v, c). one_hot c v) (zip r cats))) V"
  by (auto simp: one_hot_encoder_transform_def and_then_eq_Inr check_array_eq_Inr)

lemma standard_scaler_transform_eq_Inr:
  "standard_scaler_transform s V = Inr M \<longleftrightarrow>
     V \<noteq> [] \<and> 0 < n_features V \<and> n_features V = length (scaler_mean s) \<and>
     M = map (scale_row s) V"
  by (auto simp: standard_scaler_transform_def and_then_eq_Inr check_array_eq_Inr)

lemma nominal_rowwise:
  assumes "nominal_pipeline_transform f X = Inr M" "nominal_pipeline_transform f Y = Inr N"
    and "i < length X" "k < length Y" "X ! i = Y ! k"
  shows "length M = length X \<and> length N = length Y \<and> M ! i = N ! k"
  using assms
  by (auto simp: nominal_pipeline_transform_def and_then_eq_Inr imputer_transform_eq_Inr
                 one_hot_encoder_transform_eq_Inr)

lemma ordinal_rowwise:
  assumes "ordinal_pipeline_transform f X = Inr M" "ordinal_pipeline_transform f Y = Inr N"
    and "i < length X" "k < length Y" "X ! i = Y ! k"
  shows "length M = length X \<and> length N = length Y \<and> M ! i = N ! k"
  using assms
  by (auto simp: ordinal_pipeline_transform_def and_then_eq_Inr imputer_transform_eq_Inr
                 ordinal_encoder_transform_eq_Inr)

lemma check_array_float_rows:
  assumes "check_array_float E X = Inr Xf"
  shows "length Xf = length X"
    and "\<And>i. i < length X \<Longrightarrow> collect (map (as_float E) (X ! i)) = Inr (Xf ! i)"
proof -
  from assms have c: "collect (map (\<lambda>r. collect (map (as_float E) r)) X) = Inr Xf"
    by (auto simp: check_array_float_def and_then_eq_Inr check_array_eq_Inr)
  from collect_map_Inr(1) [OF c] show "length Xf = length X" .
  fix i assume "i < length X"
  then show "collect (map (as_float E) (X ! i)) = Inr (Xf ! i)"
    by (rule collect_map_Inr(2) [OF c])
qed

lemma numerical_rowwise:
  assumes m: "numerical_pipeline_transform E f X = Inr M"
    and n: "numerical_pipeline_transform E f Y = Inr N"
    and ik: "i < length X" "k < length Y" "X ! i = Y ! k"
  shows "length M = length X \<and> length N = length Y \<and> M ! i = N ! k"
proof -
  from m obtain Xf where xf: "check_array_float E X = Inr Xf"
    and mm: "M = map (scale_row (scaler f)) (map (impute_row (num_statistics f)) Xf)"
    by (auto simp: numerical_pipeline_transform_def and_then_eq_Inr imputer_transform_eq_Inr
                   standard_scaler_transform_eq_Inr)
  from n obtain Yf where yf: "check_array_float E Y = Inr Yf"
    and nn: "N = map (scale_row (scaler f)) (map (impute_row (num_statistics f)) Yf)"
    by (auto simp: numerical_pipeline_transform_def and_then_eq_Inr imputer_transform_eq_Inr
                   standard_scaler_transform_eq_Inr)
  note x = check_array_float_rows [OF xf]
  note y = check_array_float_rows [OF yf]
  have "Inr (Xf ! i) = (Inr (Yf ! k) :: error + real option list)"
    using x(2) [OF ik(1)] y(2) [OF ik(2)] ik(3) by simp
  then have e: "Xf ! i = Yf ! k" by simp
  have "M ! i = scale_row (scaler f) (impute_row (num_statistics f) (Xf ! i))"
    using mm x(1) ik(1) by simp
  moreover have "N ! k = scale_row (scaler f) (impute_row (num_statistics f) (Yf ! k))"
    using nn y(1) ik(2) by simp
  ultimately have "M ! i = N ! k" using e by simp
  then show ?thesis using mm nn x(1) y(1) by simp
qed

lemma select_columns_nth:
  "i < len A \<Longrightarrow> select_columns A names ! i = take_columns A names (snd (rows A ! i))"
  by (simp add: select_columns_def df_values_def len_def)

lemma entry_transform_rowwise:
  assumes tr: "\<And>g X Y M N i k. tr g X = Inr M \<Longrightarrow> tr g Y = Inr N \<Longrightarrow> i < length X \<Longrightarrow>
                 k < length Y \<Longrightarrow> X ! i = Y ! k \<Longrightarrow>
                 length M = length X \<and> length N = length Y \<and> M ! i = N ! k"
    and m: "entry_transform tr fo A names = Inr M"
    and n: "entry_transform tr fo B names = Inr N"
    and c: "columns A = columns B"
    and ik: "i < len A" "k < len B" "snd (rows A ! i) = snd (rows B ! k)"
  shows "length M = len A \<and> length N = len B \<and> M ! i = N ! k"
proof (cases fo)
  case None
  with m n ik show ?thesis by (auto simp: entry_transform_def)
next
  case (Some g)
  with m n have m': "tr g (select_columns A names) = Inr M"
    and n': "tr g (select_columns B names) = Inr N"
    by (simp_all add: entry_transform_def)
  have la: "length (select_columns A names) = len A"
    and lb: "length (select_columns B names) = len B"
    by (simp_all add: select_columns_def df_values_def len_def)
  have e: "select_columns A names ! i = select_columns B names ! k"
    using ik c by (simp add: select_columns_nth take_columns_def)
  from tr [OF m' n' _ _ e] ik la lb show ?thesis by simp
qed

lemma hstack_nth:
  "i < length A \<Longrightarrow> length B = length A \<Longrightarrow> length C = length A \<Longrightarrow>
   hstack A B C ! i = A ! i @ B ! i @ C ! i"
  by (simp add: hstack_def)

lemma length_hstack:
  "length B = length A \<Longrightarrow> length C = length A \<Longrightarrow> length (hstack A B C) = length A"
  by (simp add: hstack_def)

lemma column_transformer_transform_rowwise:
  assumes m: "column_transformer_transform E ct A = Inr M"
    and n: "column_transformer_transform E ct B = Inr N"
    and c: "columns A = columns B"
    and ik: "i < len A" "k < len B" "snd (rows A ! i) = snd (rows B ! k)"
  shows "length M = len A \<and> length N = len B \<and> M ! i = N ! k"
proof -
  from m obtain A1 A2 A3 where
    a1: "entry_transform nominal_pipeline_transform (nominal_preprocessor ct) A (nominal_names ct) = Inr A1" and
    a2: "entry_transform ordinal_pipeline_transform (ordinal_preprocessor ct) A (ordinal_names ct) = Inr A2" and
    a3: "entry_transform (numerical_pipeline_transform E) (numerical_preprocessor ct) A (numerical_names ct) = Inr A3" and
    mm: "M = hstack A1 A2 A3"
    by (auto simp: column_transformer_transform_def and_then_eq_Inr split: if_splits)
  from n obtain B1 B2 B3 where
    b1: "entry_transform nominal_pipeline_transform (nominal_preprocessor ct) B (nominal_names ct) = Inr B1" and
    b2: "entry_transform ordinal_pipeline_transform (ordinal_preprocessor ct) B (ordinal_names ct) = Inr B2" and
    b3: "entry_transform (numerical_pipeline_transform E) (numerical_preprocessor ct) B (numerical_names ct) = Inr B3" and
    nn: "N = hstack B1 B2 B3"
    by (auto simp: column_transformer_transform_def and_then_eq_Inr split: if_splits)
  have r1: "length A1 = len A \<and> length B1 = len B \<and> A1 ! i = B1 ! k"
    by (rule entry_transform_rowwise [OF nominal_rowwise a1 b1 c ik])
  have r2: "length A2 = len A \<and> length B2 = len B \<and> A2 ! i = B2 ! k"
    by (rule entry_transform_rowwise [OF ordinal_rowwise a2 b2 c ik])
  have r3: "length A3 = len A \<and> length B3 = len B \<and> A3 ! i = B3 ! k"
    by (rule entry_transform_rowwise [OF numerical_rowwise a3 b3 c ik])
  have "M ! i = A1 ! i @ A2 ! i @ A3 ! i"
    unfolding mm using r1 r2 r3 ik(1) by (intro hstack_nth) simp_all
  moreover have "N ! k = B1 ! k @ B2 ! k @ B3 ! k"
    unfolding nn using r1 r2 r3 ik(2) by (intro hstack_nth) simp_all
  moreover have "length M = len A" unfolding mm using r1 r2 r3 by (simp add: length_hstack)
  moreover have "length N = len B" unfolding nn using r1 r2 r3 by (simp add: length_hstack)
  ultimately show ?thesis using r1 r2 r3 by simp
qed

lemma linear_regression_predict_eq_Inr:
  "linear_regression_predict w b M = Inr P \<longleftrightarrow>
     M \<noteq> [] \<and> 0 < n_features M \<and> n_features M = length w \<and>
     P = map (\<lambda>r. sum_list (map2 (*) r w) + b) M"
  by (auto simp: linear_regression_predict_def and_then_eq_Inr check_array_eq_Inr)

lemma pipeline_predict_rowwise:
  assumes p: "pipeline_predict E f A = Inr P"
    and q: "pipeline_predict E f B = Inr Q"
    and c: "columns A = columns B"
    and ik: "i < len A" "k < len B" "snd (rows A ! i) = snd (rows B ! k)"
  shows "P ! i = Q ! k"
proof -
  from p obtain M where m: "column_transformer_transform E (preprocessor f) A = Inr M"
    and pp: "P = map (\<lambda>r. sum_list (map2 (*) r (coef f)) + intercept f) M"
    by (auto simp: pipeline_predict_def and_then_eq_Inr linear_regression_predict_eq_Inr)
  from q obtain N where n: "column_transformer_transform E (preprocessor f) B = Inr N"
    and qq: "Q = map (\<lambda>r. sum_list (map2 (*) r (coef f)) + intercept f) N"
    by (auto simp: pipeline_predict_def and_then_eq_Inr linear_regression_predict_eq_Inr)
  from column_transformer_transform_rowwise [OF m n c ik]
  show ?thesis using pp qq ik by simp
qed


lemma train_mask_ok:
  "getitem_mask df (map (\<lambda>u. u < 0.8) (np_random_rand E (len df)))
     = Inr (df\<lparr>rows := map fst (filter snd (zip (rows df)
              (map (\<lambda>u. u < 0.8) (np_random_rand E (len df)))))\<rparr>)"
  by (simp add: getitem_mask_def np_random_rand_def)

lemma val_mask_ok:
  "getitem_mask df (map Not (map (\<lambda>u. u < 0.8) (np_random_rand E (len df))))
     = Inr (df\<lparr>rows := map fst (filter snd (zip (rows df)
              (map Not (map (\<lambda>u. u < 0.8) (np_random_rand E (len df))))))\<rparr>)"
  by (simp add: getitem_mask_def np_random_rand_def)

lemma run_cell_fit_step:
  assumes "run_cell E nom ord num label df t = Inr s"
  shows "fit_step E nom ord num label df = Inr (complete_pipeline s) \<and>
         pipeline s = complete_pipeline s"
  using run_cell_fit [OF assms] by (auto simp: fit_step_def Let_def)

lemma getitem_columns_cong:
  "columns A = columns B \<Longrightarrow> getitem_columns A names = Inr X \<Longrightarrow>
   \<exists>Y. getitem_columns B names = Inr Y"
  by (auto simp: getitem_columns_def split: if_splits)

lemma getitem_column_cong:
  "columns A = columns B \<Longrightarrow> getitem_column A name = Inr x \<Longrightarrow>
   \<exists>y. getitem_column B name = Inr y"
  by (auto simp: getitem_column_def split: if_splits)

lemma fit_step_error_stops_cell:
  assumes t: "getitem_columns t (nom @ ord @ num) = Inr tX"
    and f: "fit_step E nom ord num label df = Inl e"
  shows "run_cell E nom ord num label df t = Inl e"
proof -
  define m where "m = map (\<lambda>u. u < 8 / 10) (np_random_rand E (len df))"
  define train where "train = df\<lparr>rows := map fst (filter snd (zip (rows df) m))\<rparr>"
  define val where "val = df\<lparr>rows := map fst (filter snd (zip (rows df) (map Not m)))\<rparr>"
  have gt: "getitem_mask df m = Inr train"
    unfolding m_def train_def using train_mask_ok [of df E] by simp
  have gv: "getitem_mask df (map Not m) = Inr val"
    unfolding m_def val_def using val_mask_ok [of df E] by simp
  have cc: "columns train = columns val" by (simp add: train_def val_def)
  have fs: "fit_step E nom ord num label df =
              and_then (getitem_columns train (nom @ ord @ num)) (\<lambda>train_X.
              and_then (getitem_column train label) (\<lambda>train_y.
              pipeline_fit E nom ord num train_X train_y))"
    unfolding fit_step_def Let_def m_def [symmetric] gt by simp
  show ?thesis
  proof (cases "getitem_columns train (nom @ ord @ num)")
    case (Inl e1)
    with fs f have "e1 = e" by simp
    with Inl show ?thesis
      unfolding run_cell_def Let_def m_def [symmetric] gv gt by simp
  next
    case X: (Inr train_X)
    from getitem_columns_cong [OF cc X] obtain val_X where
      vX: "getitem_columns val (nom @ ord @ num) = Inr val_X" by blast
    show ?thesis
    proof (cases "getitem_column train label")
      case (Inl e1)
      with fs f X have "e1 = e" by simp
      with Inl X show ?thesis
        unfolding run_cell_def Let_def m_def [symmetric] gv gt by simp
    next
      case y: (Inr train_y)
      from getitem_column_cong [OF cc y] obtain val_y where
        vy: "getitem_column val label = Inr val_y" by blast
      from fs f X y have "pipeline_fit E nom ord num train_X train_y = Inl e" by simp
      with X y vX vy t show ?thesis
        unfolding run_cell_def Let_def m_def [symmetric] gv gt by simp
    qed
  qed
qed

lemma run_cell_train_df:
  assumes "run_cell E nom ord num label df t = Inr s"
  shows "getitem_mask df (map (\<lambda>u. u < 0.8) (np_random_rand E (len df))) = Inr (train_df s)"
  using assms unfolding run_cell_def Let_def by (auto simp: and_then_eq_Inr)

lemma getitem_mask_cong:
  assumes c: "columns df1 = columns df2" and l: "len df1 = len df2"
    and same: "\<forall>i. i < len df1 \<longrightarrow> random_sample E i < 0.8 \<longrightarrow> rows df1 ! i = rows df2 ! i"
  shows "getitem_mask df1 (map (\<lambda>u. u < 0.8) (np_random_rand E (len df1)))
           = getitem_mask df2 (map (\<lambda>u. u < 0.8) (np_random_rand E (len df2)))"
proof -
  define m where "m = map (\<lambda>u. u < 8 / 10) (np_random_rand E (len df1))"
  have m2: "map (\<lambda>u. u < 8 / 10) (np_random_rand E (len df2)) = m" by (simp add: m_def l)
  have lm: "length m = length (rows df1)" by (simp add: m_def np_random_rand_def len_def)
  have lm2: "length m = length (rows df2)" using lm l by (simp add: len_def)
  have mi: "random_sample E i < 8 / 10" if "i < length m" "m ! i" for i
    using that by (simp add: m_def np_random_rand_def)
  have k: "map fst (filter snd (zip (rows df1) m)) = map fst (filter snd (zip (rows df2) m))"
  proof (rule kept_cong)
    show "length (rows df1) = length m" "length (rows df2) = length m" using lm lm2 by simp_all
    fix i assume i: "i < length m" "m ! i"
    with same lm mi [OF i] show "rows df1 ! i = rows df2 ! i" by (simp add: len_def)
  qed
  have "getitem_mask df1 m = getitem_mask df2 m"
    using lm lm2 c k by (simp add: getitem_mask_def len_def)
  then show ?thesis unfolding m2 m_def [symmetric] by simp
qed

lemma fit_step_cong:
  assumes c: "columns df1 = columns df2" and l: "len df1 = len df2"
    and same: "\<forall>i. i < len df1 \<longrightarrow> random_sample E i < 0.8 \<longrightarrow> rows df1 ! i = rows df2 ! i"
  shows "fit_step E nom ord num label df1 = fit_step E nom ord num label df2"
  unfolding fit_step_def Let_def using getitem_mask_cong [OF c l same] by simp

text \<open>
  Claim C1.  Take two training tables with the same columns and the same number of
  rows that agree on every row the mask keeps for training, and the same draws; the
  rows sent to validation may differ in any way, and so may the test tables.  Then the
  statements that fit the pipeline give the same result on both tables: the same
  imputation values, category lists, scaling means and scales, and coefficients, or the
  same error.  This needs no assumption on the rest of the cell: it holds also when
  scoring or predicting raises afterwards.  The fit statements are those of the cell:
  a completed run ends with the pipeline they return, and an error they raise is the
  error the cell stops with (given a test table that has the feature columns, which
  line 120 asks for before the fit).  Two completed runs therefore end with the same
  training partition and the same fitted pipeline.  Moreover every fitted transformer
  and pipeline works row by row: whenever two tables with the same columns are
  transformed (or predicted on) successfully, rows with equal cells get equal outputs,
  whatever the other rows of the two tables hold.
\<close>

theorem fit_reads_training_rows_only:
  assumes c: "columns df1 = columns df2" and l: "len df1 = len df2"
    and same: "\<forall>i. i < len df1 \<longrightarrow> random_sample E i < 0.8 \<longrightarrow> rows df1 ! i = rows df2 ! i"
  shows "fit_step E nom ord num label df1 = fit_step E nom ord num label df2 \<and>
         (\<forall>df t s. run_cell E nom ord num label df t = Inr s \<longrightarrow>
            fit_step E nom ord num label df = Inr (complete_pipeline s) \<and>
            pipeline s = complete_pipeline s) \<and>
         (\<forall>df t tX e. getitem_columns t (nom @ ord @ num) = Inr tX \<longrightarrow>
            fit_step E nom ord num label df = Inl e \<longrightarrow>
            run_cell E nom ord num label df t = Inl e) \<and>
         (\<forall>t1 s1. run_cell E nom ord num label df1 t1 = Inr s1 \<longrightarrow>
            fit_step E nom ord num label df2 = Inr (complete_pipeline s1)) \<and>
         (\<forall>t1 t2 s1 s2.
            run_cell E nom ord num label df1 t1 = Inr s1 \<longrightarrow>
            run_cell E nom ord num label df2 t2 = Inr s2 \<longrightarrow>
            train_df s1 = train_df s2 \<and>
            complete_pipeline s1 = complete_pipeline s2 \<and> pipeline s1 = pipeline s2) \<and>
         (\<forall>p A B M N i k.
            column_transformer_transform E (preprocessor p) A = Inr M \<longrightarrow>
            column_transformer_transform E (preprocessor p) B = Inr N \<longrightarrow>
            columns A = columns B \<longrightarrow> i < len A \<longrightarrow> k < len B \<longrightarrow>
            snd (rows A ! i) = snd (rows B ! k) \<longrightarrow> M ! i = N ! k) \<and>
         (\<forall>p A B P Q i k.
            pipeline_predict E p A = Inr P \<longrightarrow>
            pipeline_predict E p B = Inr Q \<longrightarrow>
            columns A = columns B \<longrightarrow> i < len A \<longrightarrow> k < len B \<longrightarrow>
            snd (rows A ! i) = snd (rows B ! k) \<longrightarrow> P ! i = Q ! k)"
proof -
  have k1: "fit_step E nom ord num label df1 = fit_step E nom ord num label df2"
    using c l same by (rule fit_step_cong)
  have k2: "\<forall>df t s. run_cell E nom ord num label df t = Inr s \<longrightarrow>
            fit_step E nom ord num label df = Inr (complete_pipeline s) \<and>
            pipeline s = complete_pipeline s"
    by (intro allI impI) (rule run_cell_fit_step)
  have k3: "\<forall>df t tX e. getitem_columns t (nom @ ord @ num) = Inr tX \<longrightarrow>
            fit_step E nom ord num label df = Inl e \<longrightarrow>
            run_cell E nom ord num label df t = Inl e"
    by (intro allI impI) (rule fit_step_error_stops_cell)
  have k4: "\<forall>t1 s1. run_cell E nom ord num label df1 t1 = Inr s1 \<longrightarrow>
            fit_step E nom ord num label df2 = Inr (complete_pipeline s1)"
  proof (intro allI impI)
    fix t1 s1 assume "run_cell E nom ord num label df1 t1 = Inr s1"
    from run_cell_fit_step [OF this] k1
    show "fit_step E nom ord num label df2 = Inr (complete_pipeline s1)" by simp
  qed
  have k5: "\<forall>t1 t2 s1 s2.
            run_cell E nom ord num label df1 t1 = Inr s1 \<longrightarrow>
            run_cell E nom ord num label df2 t2 = Inr s2 \<longrightarrow>
            train_df s1 = train_df s2 \<and>
            complete_pipeline s1 = complete_pipeline s2 \<and> pipeline s1 = pipeline s2"
  proof (intro allI impI)
    fix t1 t2 s1 s2
    assume r1: "run_cell E nom ord num label df1 t1 = Inr s1"
      and r2: "run_cell E nom ord num label df2 t2 = Inr s2"
    note f1 = run_cell_fit_step [OF r1] and f2 = run_cell_fit_step [OF r2]
    from f1 f2 k1 have fit: "complete_pipeline s1 = complete_pipeline s2" by simp
    from run_cell_train_df [OF r1] run_cell_train_df [OF r2] getitem_mask_cong [OF c l same]
    have tr: "train_df s1 = train_df s2" by simp
    from fit tr f1 f2
    show "train_df s1 = train_df s2 \<and>
          complete_pipeline s1 = complete_pipeline s2 \<and> pipeline s1 = pipeline s2"
      by simp
  qed
  have k6: "\<forall>p A B M N i k.
            column_transformer_transform E (preprocessor p) A = Inr M \<longrightarrow>
            column_transformer_transform E (preprocessor p) B = Inr N \<longrightarrow>
            columns A = columns B \<longrightarrow> i < len A \<longrightarrow> k < len B \<longrightarrow>
            snd (rows A ! i) = snd (rows B ! k) \<longrightarrow> M ! i = N ! k"
  proof (intro allI impI)
    fix p A B M N i k
    assume "column_transformer_transform E (preprocessor p) A = Inr M"
      "column_transformer_transform E (preprocessor p) B = Inr N"
      "columns A = columns B" "i < len A" "k < len B" "snd (rows A ! i) = snd (rows B ! k)"
    from column_transformer_transform_rowwise [OF this] show "M ! i = N ! k" by simp
  qed
  have k7: "\<forall>p A B P Q i k.
            pipeline_predict E p A = Inr P \<longrightarrow>
            pipeline_predict E p B = Inr Q \<longrightarrow>
            columns A = columns B \<longrightarrow> i < len A \<longrightarrow> k < len B \<longrightarrow>
            snd (rows A ! i) = snd (rows B ! k) \<longrightarrow> P ! i = Q ! k"
    by (intro allI impI) (rule pipeline_predict_rowwise)
  show ?thesis
    by (intro conjI) (rule k1 k2 k3 k4 k5 k6 k7)+
qed

lemma example_run_changed:
  "\<exists>s. run_cell example_env [''Zone''] [''Qual''] [''Area''] ''Price'' example_train_changed
            (test_features example_state) = Inr s"
  by (simp add: run_simps example_train_changed_def example_state_def)

lemma example_run_unseen:
  "run_cell example_env [''Zone''] [''Qual''] [''Area''] ''Price'' example_train_unseen example_test
     = Inl ValueError"
  by (simp add: run_simps example_train_unseen_def)

lemma example_same_rows:
  assumes "rows df ! 0 = rows example_train ! 0" "rows df ! 2 = rows example_train ! 2"
    "rows df ! 3 = rows example_train ! 3" "rows df ! 5 = rows example_train ! 5"
  shows "\<forall>i. i < len example_train \<longrightarrow> random_sample example_env i < 0.8 \<longrightarrow>
           rows example_train ! i = rows df ! i"
proof (intro allI impI)
  fix i
  assume "i < len example_train" and dr: "random_sample example_env i < 0.8"
  then have "i < 6" by (simp add: example_train_def len_def)
  then consider "i = 0" | "i = 1" | "i = 2" | "i = 3" | "i = 4" | "i = 5" by linarith
  then show "rows example_train ! i = rows df ! i"
    using dr assms by cases (simp_all add: example_env_def)
qed

theorem fit_reads_training_rows_only_witness:
  "columns example_train = columns example_train_unseen \<and>
   len example_train = len example_train_unseen \<and>
   rows example_train ! 1 \<noteq> rows example_train_unseen ! 1 \<and>
   run_cell example_env [''Zone''] [''Qual''] [''Area''] ''Price'' example_train example_test
     = Inr example_state \<and>
   run_cell example_env [''Zone''] [''Qual''] [''Area''] ''Price'' example_train_unseen example_test
     = Inl ValueError \<and>
   fit_step example_env [''Zone''] [''Qual''] [''Area''] ''Price'' example_train = Inr example_pipeline \<and>
   fit_step example_env [''Zone''] [''Qual''] [''Area''] ''Price'' example_train_unseen
     = Inr example_pipeline \<and>
   columns example_train = columns example_train_changed \<and>
   len example_train = len example_train_changed \<and>
   rows example_train ! 1 \<noteq> rows example_train_changed ! 1 \<and>
   example_test \<noteq> test_features example_state \<and>
   (\<exists>s2.
      run_cell example_env [''Zone''] [''Qual''] [''Area''] ''Price'' example_train_changed
        (test_features example_state) = Inr s2 \<and>
      complete_pipeline s2 = example_pipeline \<and> pipeline s2 = example_pipeline)"
proof -
  have c: "columns example_train = columns example_train_changed"
    by (simp add: example_train_def example_train_changed_def)
  have l: "len example_train = len example_train_changed"
    by (simp add: example_train_def example_train_changed_def len_def)
  have same: "\<forall>i. i < len example_train \<longrightarrow> random_sample example_env i < 0.8 \<longrightarrow>
                rows example_train ! i = rows example_train_changed ! i"
    by (rule example_same_rows) (simp_all add: example_train_def example_train_changed_def)
  have d: "rows example_train ! 1 \<noteq> rows example_train_changed ! 1"
    by (simp add: example_train_def example_train_changed_def)
  have c': "columns example_train = columns example_train_unseen"
    by (simp add: example_train_def example_train_unseen_def)
  have l': "len example_train = len example_train_unseen"
    by (simp add: example_train_def example_train_unseen_def len_def)
  have same': "\<forall>i. i < len example_train \<longrightarrow> random_sample example_env i < 0.8 \<longrightarrow>
                rows example_train ! i = rows example_train_unseen ! i"
    by (rule example_same_rows) (simp_all add: example_train_def example_train_unseen_def)
  have d': "rows example_train ! 1 \<noteq> rows example_train_unseen ! 1"
    by (simp add: example_train_def example_train_unseen_def)
  have t: "example_test \<noteq> test_features example_state"
    by (simp add: example_test_def example_state_def)
  have p: "complete_pipeline example_state = example_pipeline" by (simp add: example_state_def)
  note u = fit_reads_training_rows_only [OF c' l' same', of "[''Zone'']" "[''Qual'']" "[''Area'']" "''Price''"]
  note u1 = u [THEN conjunct1]
  note u2 = u [THEN conjunct2, THEN conjunct1, rule_format]
  from u2 [OF example_run] p
  have f1: "fit_step example_env [''Zone''] [''Qual''] [''Area''] ''Price'' example_train
              = Inr example_pipeline"
    by simp
  from u1 f1
  have f2: "fit_step example_env [''Zone''] [''Qual''] [''Area''] ''Price'' example_train_unseen
              = Inr example_pipeline"
    by simp
  from example_run_changed obtain s2 where
    r2: "run_cell example_env [''Zone''] [''Qual''] [''Area''] ''Price'' example_train_changed
           (test_features example_state) = Inr s2"
    by blast
  note w = fit_reads_training_rows_only [OF c l same, of "[''Zone'']" "[''Qual'']" "[''Area'']" "''Price''"]
  note w5 = w [THEN conjunct2, THEN conjunct2, THEN conjunct2, THEN conjunct2, THEN conjunct1,
               rule_format]
  from w5 [OF example_run r2] p
  have q: "complete_pipeline s2 = example_pipeline \<and> pipeline s2 = example_pipeline"
    by (simp add: example_state_def)
  from r2 q have x: "\<exists>s2.
      run_cell example_env [''Zone''] [''Qual''] [''Area''] ''Price'' example_train_changed
        (test_features example_state) = Inr s2 \<and>
      complete_pipeline s2 = example_pipeline \<and> pipeline s2 = example_pipeline"
    by blast
  show ?thesis
    by (intro conjI) (rule c' l' d' example_run example_run_unseen f1 f2 c l d t x)+
qed

end
